theory Spec2Isabelle
  imports Complex_Main "HOL-Library.Word" "HOL-Library.Char_ord" "HOL-Library.List_Lexorder"
begin

section \<open>The filter language: concrete syntax tree (query/language.go)\<close>

text \<open>
  The parser is generated by a third-party library from the struct tags of
  \<^verbatim>\<open>language.go\<close>; its result type is the concrete tree below. A struct whose
  tag is an alternation (\<^verbatim>\<open>EqualExpr\<close>, \<^verbatim>\<open>Value\<close>) has exactly one pointer field
  set by the parser and is a datatype with one constructor per alternative; a
  pointer that the parser leaves \<^verbatim>\<open>nil\<close> is the absent constructor, so that
  dereferencing it is a case of the model. Slices are lists (\<^verbatim>\<open>nil\<close> is \<open>[]\<close>),
  \<^verbatim>\<open>uint64\<close> is \<open>64 word\<close>, a Go panic is a value of type \<open>panic\<close>.
\<close>

datatype panic =
  NilPointerDereference
  | IndexOutOfRange
  | PanicMessage string

type_synonym uint64 = "64 word"

datatype Value =
  Value_String string
  | Value_Number uint64

datatype Values = Values (Strings: "string list") (Numbers: "uint64 list")

datatype Glob = Glob (Glob_Var: string) (Glob_IsNot: bool) (Glob_Value: string)

datatype LessThan = LessThan (LessThan_Var: string) (LessThan_Value: Value)

datatype LessOrEqualThan =
  LessOrEqualThan (LessOrEqualThan_Var: string) (LessOrEqualThan_Value: Value)

datatype GreaterThan = GreaterThan (GreaterThan_Var: string) (GreaterThan_Value: Value)

datatype GreaterOrEqualThan =
  GreaterOrEqualThan (GreaterOrEqualThan_Var: string) (GreaterOrEqualThan_Value: Value)

datatype Equality =
  Equality (Equality_Var: string) (Equality_IsNot: bool) (Equality_Value: Value)

datatype Inclusion =
  Inclusion (Inclusion_Var: string) (Inclusion_IsNot: bool) (Inclusion_Values: Values)

datatype EqualExpr =
  EqualExpr_Paren Paren
  | EqualExpr_Assign Equality
  | EqualExpr_Inclusion Inclusion
  | EqualExpr_LessThan LessThan
  | EqualExpr_LessOrEqualThan LessOrEqualThan
  | EqualExpr_GreaterThan GreaterThan
  | EqualExpr_GreaterOrEqualThan GreaterOrEqualThan
  | EqualExpr_Glob Glob
and Paren = Paren (Paren_IsNot: bool) (Paren_Nested: Expression)
and Expression = Expression (Expression_Or: OrExpression)
and OrExpression = OrExpression (Or_Left: AndExpression) (Or_Right: "OrRHS list")
and OrRHS = OrRHS (OrRHS_Expr: AndExpression)
and AndExpression = AndExpression (And_Left: EqualExpr) (And_Right: "AndRHS list")
and AndRHS = AndRHS (AndRHS_Expr: EqualExpr)

datatype TopLevel = TopLevel (TopLevel_Expression: "Expression option")

subsection \<open>The normalised tree\<close>

datatype ASTTerm =
  ASTTerm_Assign Equality
  | ASTTerm_Inclusion Inclusion
  | ASTTerm_LessThan LessThan
  | ASTTerm_LessOrEqualThan LessOrEqualThan
  | ASTTerm_GreaterThan GreaterThan
  | ASTTerm_GreaterOrEqualThan GreaterOrEqualThan
  | ASTTerm_Glob Glob

datatype ASTAnd = ASTAnd (ASTAnd_Terms: "ASTTerm list")

datatype ASTOr = ASTOr (ASTOr_Terms: "ASTAnd list")

datatype ASTExpr = ASTExpr (ASTExpr_Or: ASTOr)

datatype AST = AST (AST_Expr: "ASTExpr option")

subsection \<open>Meta-attribute names and lower-casing\<close>

definition KeyAttributeKey :: string where
  "KeyAttributeKey = ''$key''"

definition CreatorAttributeKey :: string where
  "CreatorAttributeKey = ''$creator''"

definition OwnerAttributeKey :: string where
  "OwnerAttributeKey = ''$owner''"

text \<open>
  The \<^verbatim>\<open>switch e.Var { case KeyAttributeKey, OwnerAttributeKey, CreatorAttributeKey: \<close>
  head shared by every leaf's \<^verbatim>\<open>Normalise\<close>.
\<close>

definition isCaseInsensitiveVar :: "string \<Rightarrow> bool" where
  "isCaseInsensitiveVar v \<longleftrightarrow>
     v = KeyAttributeKey \<or> v = OwnerAttributeKey \<or> v = CreatorAttributeKey"

text \<open>
  \<^verbatim>\<open>strings.ToLower\<close> of the standard library, on the bytes of the string: the letters
  \<^verbatim>\<open>A\<close> to \<^verbatim>\<open>Z\<close> move to \<^verbatim>\<open>a\<close> to \<^verbatim>\<open>z\<close>, every other byte stays. (The library also
  maps upper-case letters beyond ASCII; hexadecimal keys and addresses have none, and
  no proof below depends on which letters are mapped.)
\<close>

definition toLowerChar :: "char \<Rightarrow> char" where
  "toLowerChar c =
     (case map_of (zip ''ABCDEFGHIJKLMNOPQRSTUVWXYZ'' ''abcdefghijklmnopqrstuvwxyz'') c of
        Some l \<Rightarrow> l
      | None \<Rightarrow> c)"

definition ToLower :: "string \<Rightarrow> string" where
  "ToLower s = map toLowerChar s"

text \<open>\<^verbatim>\<open>*e.Value.String\<close>: the pointer is \<^verbatim>\<open>nil\<close> when the literal was a number.\<close>

fun derefString :: "Value \<Rightarrow> panic + string" where
  "derefString (Value_String s) = Inr s"
| "derefString (Value_Number n) = Inl NilPointerDereference"

subsection \<open>Normalise on the leaves\<close>

definition Glob_Normalise :: "Glob \<Rightarrow> Glob" where
  "Glob_Normalise e = e"

definition LessThan_Normalise :: "LessThan \<Rightarrow> panic + LessThan" where
  "LessThan_Normalise e =
     (if isCaseInsensitiveVar (LessThan_Var e)
      then (case derefString (LessThan_Value e) of
              Inl p \<Rightarrow> Inl p
            | Inr s \<Rightarrow> Inr (LessThan (LessThan_Var e) (Value_String (ToLower s))))
      else Inr e)"

definition LessOrEqualThan_Normalise :: "LessOrEqualThan \<Rightarrow> panic + LessOrEqualThan" where
  "LessOrEqualThan_Normalise e =
     (if isCaseInsensitiveVar (LessOrEqualThan_Var e)
      then (case derefString (LessOrEqualThan_Value e) of
              Inl p \<Rightarrow> Inl p
            | Inr s \<Rightarrow> Inr (LessOrEqualThan (LessOrEqualThan_Var e) (Value_String (ToLower s))))
      else Inr e)"

definition GreaterThan_Normalise :: "GreaterThan \<Rightarrow> panic + GreaterThan" where
  "GreaterThan_Normalise e =
     (if isCaseInsensitiveVar (GreaterThan_Var e)
      then (case derefString (GreaterThan_Value e) of
              Inl p \<Rightarrow> Inl p
            | Inr s \<Rightarrow> Inr (GreaterThan (GreaterThan_Var e) (Value_String (ToLower s))))
      else Inr e)"

definition GreaterOrEqualThan_Normalise ::
  "GreaterOrEqualThan \<Rightarrow> panic + GreaterOrEqualThan" where
  "GreaterOrEqualThan_Normalise e =
     (if isCaseInsensitiveVar (GreaterOrEqualThan_Var e)
      then (case derefString (GreaterOrEqualThan_Value e) of
              Inl p \<Rightarrow> Inl p
            | Inr s \<Rightarrow>
                Inr (GreaterOrEqualThan (GreaterOrEqualThan_Var e) (Value_String (ToLower s))))
      else Inr e)"

definition Equality_Normalise :: "Equality \<Rightarrow> panic + Equality" where
  "Equality_Normalise e =
     (if isCaseInsensitiveVar (Equality_Var e)
      then (case derefString (Equality_Value e) of
              Inl p \<Rightarrow> Inl p
            | Inr s \<Rightarrow>
                Inr (Equality (Equality_Var e) (Equality_IsNot e) (Value_String (ToLower s))))
      else Inr e)"

text \<open>
  \<^verbatim>\<open>Inclusion.Normalise\<close> builds a new \<^verbatim>\<open>Inclusion\<close> from \<^verbatim>\<open>Var\<close> and the lower-cased
  \<^verbatim>\<open>Values.Strings\<close> only: \<^verbatim>\<open>IsNot\<close> and \<^verbatim>\<open>Values.Numbers\<close> take their zero values.
\<close>

definition Inclusion_Normalise :: "Inclusion \<Rightarrow> Inclusion" where
  "Inclusion_Normalise e =
     (if isCaseInsensitiveVar (Inclusion_Var e)
      then Inclusion (Inclusion_Var e) False
             (Values (map ToLower (Strings (Inclusion_Values e))) [])
      else e)"

subsection \<open>invert\<close>

definition Glob_invert :: "Glob \<Rightarrow> Glob" where
  "Glob_invert e = Glob (Glob_Var e) (\<not> Glob_IsNot e) (Glob_Value e)"

definition LessThan_invert :: "LessThan \<Rightarrow> GreaterOrEqualThan" where
  "LessThan_invert e = GreaterOrEqualThan (LessThan_Var e) (LessThan_Value e)"

definition LessOrEqualThan_invert :: "LessOrEqualThan \<Rightarrow> GreaterThan" where
  "LessOrEqualThan_invert e = GreaterThan (LessOrEqualThan_Var e) (LessOrEqualThan_Value e)"

definition GreaterThan_invert :: "GreaterThan \<Rightarrow> LessOrEqualThan" where
  "GreaterThan_invert e = LessOrEqualThan (GreaterThan_Var e) (GreaterThan_Value e)"

definition GreaterOrEqualThan_invert :: "GreaterOrEqualThan \<Rightarrow> LessThan" where
  "GreaterOrEqualThan_invert e =
     LessThan (GreaterOrEqualThan_Var e) (GreaterOrEqualThan_Value e)"

definition Equality_invert :: "Equality \<Rightarrow> Equality" where
  "Equality_invert e = Equality (Equality_Var e) (\<not> Equality_IsNot e) (Equality_Value e)"

definition Inclusion_invert :: "Inclusion \<Rightarrow> Inclusion" where
  "Inclusion_invert e =
     Inclusion (Inclusion_Var e) (\<not> Inclusion_IsNot e) (Inclusion_Values e)"

definition Paren_invert :: "Paren \<Rightarrow> Paren" where
  "Paren_invert e = Paren (\<not> Paren_IsNot e) (Paren_Nested e)"

fun EqualExpr_invert :: "EqualExpr \<Rightarrow> EqualExpr" where
  "EqualExpr_invert (EqualExpr_Paren p) = EqualExpr_Paren (Paren_invert p)"
| "EqualExpr_invert (EqualExpr_LessThan l) = EqualExpr_GreaterOrEqualThan (LessThan_invert l)"
| "EqualExpr_invert (EqualExpr_LessOrEqualThan l) =
     EqualExpr_GreaterThan (LessOrEqualThan_invert l)"
| "EqualExpr_invert (EqualExpr_GreaterThan g) =
     EqualExpr_LessOrEqualThan (GreaterThan_invert g)"
| "EqualExpr_invert (EqualExpr_GreaterOrEqualThan g) =
     EqualExpr_LessThan (GreaterOrEqualThan_invert g)"
| "EqualExpr_invert (EqualExpr_Glob g) = EqualExpr_Glob (Glob_invert g)"
| "EqualExpr_invert (EqualExpr_Assign a) = EqualExpr_Assign (Equality_invert a)"
| "EqualExpr_invert (EqualExpr_Inclusion i) = EqualExpr_Inclusion (Inclusion_invert i)"

definition AndRHS_invert :: "AndRHS \<Rightarrow> OrRHS" where
  "AndRHS_invert e = OrRHS (AndExpression (EqualExpr_invert (AndRHS_Expr e)) [])"

definition AndExpression_invert :: "AndExpression \<Rightarrow> OrExpression" where
  "AndExpression_invert e =
     OrExpression (AndExpression (EqualExpr_invert (And_Left e)) [])
                  (map AndRHS_invert (And_Right e))"

definition OrRHS_invert :: "OrRHS \<Rightarrow> AndRHS" where
  "OrRHS_invert e =
     AndRHS (EqualExpr_Paren (Paren False (Expression (AndExpression_invert (OrRHS_Expr e)))))"

definition OrExpression_invert :: "OrExpression \<Rightarrow> AndExpression" where
  "OrExpression_invert e =
     AndExpression
       (EqualExpr_Paren (Paren False (Expression (AndExpression_invert (Or_Left e)))))
       (map OrRHS_invert (Or_Right e))"

text \<open>
  \<^verbatim>\<open>Expression.invert\<close>: a single inverted conjunct is returned without its wrapping
  parenthesis; the source panics should the left operand not be a parenthesis.
\<close>

definition Expression_invert :: "Expression \<Rightarrow> panic + Expression" where
  "Expression_invert e =
     (let newLeft = OrExpression_invert (Expression_Or e) in
      if length (And_Right newLeft) = 0
      then (case And_Left newLeft of
              EqualExpr_Paren p \<Rightarrow> Inr (Paren_Nested p)
            | _ \<Rightarrow> Inl (PanicMessage ''This should never happen!''))
      else Inr (Expression (OrExpression newLeft [])))"

subsection \<open>Normalise: negation pushdown and distribution\<close>

text \<open>
  The body of the outer loop of \<^verbatim>\<open>AndExpression.Normalise\<close>: every conjunction built so
  far is extended by every alternative of the next operand, conjunctions outermost.
\<close>

definition distribute :: "ASTAnd list \<Rightarrow> ASTTerm list list \<Rightarrow> ASTAnd list" where
  "distribute ast disjunctions =
     concat (map (\<lambda>conjunction.
               map (\<lambda>terms. ASTAnd (ASTAnd_Terms conjunction @ terms)) disjunctions) ast)"

definition crossProduct :: "ASTTerm list list list \<Rightarrow> ASTAnd list" where
  "crossProduct terms = foldl distribute [ASTAnd []] terms"

text \<open>\<^verbatim>\<open>EqualExpr.Normalise\<close>: defined on the leaves only, a panic on a parenthesis.\<close>

fun EqualExpr_Normalise :: "EqualExpr \<Rightarrow> panic + ASTTerm" where
  "EqualExpr_Normalise (EqualExpr_Paren p) =
     Inl (PanicMessage ''Called EqualExpr::Normalise on a paren, this is a bug!'')"
| "EqualExpr_Normalise (EqualExpr_LessThan l) = map_sum id ASTTerm_LessThan (LessThan_Normalise l)"
| "EqualExpr_Normalise (EqualExpr_LessOrEqualThan l) =
     map_sum id ASTTerm_LessOrEqualThan (LessOrEqualThan_Normalise l)"
| "EqualExpr_Normalise (EqualExpr_GreaterThan g) =
     map_sum id ASTTerm_GreaterThan (GreaterThan_Normalise g)"
| "EqualExpr_Normalise (EqualExpr_GreaterOrEqualThan g) =
     map_sum id ASTTerm_GreaterOrEqualThan (GreaterOrEqualThan_Normalise g)"
| "EqualExpr_Normalise (EqualExpr_Glob g) = Inr (ASTTerm_Glob (Glob_Normalise g))"
| "EqualExpr_Normalise (EqualExpr_Assign a) = map_sum id ASTTerm_Assign (Equality_Normalise a)"
| "EqualExpr_Normalise (EqualExpr_Inclusion i) = Inr (ASTTerm_Inclusion (Inclusion_Normalise i))"

text \<open>
  \<^verbatim>\<open>Paren.Normalise\<close> normalises the inverted nested expression when the parenthesis is
  negated, and the inverted expression is larger than the nested one (each operand is
  wrapped again). The measure for the recursion counts the calls: \<open>cost False\<close> for a
  tree that is normalised as it stands, \<open>cost True\<close> for a tree that is inverted first.
\<close>

fun cost_EqualExpr :: "bool \<Rightarrow> EqualExpr \<Rightarrow> nat"
and cost_Paren :: "bool \<Rightarrow> Paren \<Rightarrow> nat"
and cost_Expression :: "bool \<Rightarrow> Expression \<Rightarrow> nat"
and cost_OrExpression :: "bool \<Rightarrow> OrExpression \<Rightarrow> nat"
and cost_OrRHS :: "bool \<Rightarrow> OrRHS \<Rightarrow> nat"
and cost_AndExpression :: "bool \<Rightarrow> AndExpression \<Rightarrow> nat"
and cost_AndRHS :: "bool \<Rightarrow> AndRHS \<Rightarrow> nat"
where
  "cost_EqualExpr b (EqualExpr_Paren p) = 1 + cost_Paren b p"
| "cost_EqualExpr b (EqualExpr_Assign a) = 1"
| "cost_EqualExpr b (EqualExpr_Inclusion i) = 1"
| "cost_EqualExpr b (EqualExpr_LessThan l) = 1"
| "cost_EqualExpr b (EqualExpr_LessOrEqualThan l) = 1"
| "cost_EqualExpr b (EqualExpr_GreaterThan g) = 1"
| "cost_EqualExpr b (EqualExpr_GreaterOrEqualThan g) = 1"
| "cost_EqualExpr b (EqualExpr_Glob g) = 1"
| "cost_Paren b (Paren isNot nested) = 1 + cost_Expression (b \<noteq> isNot) nested"
| "cost_Expression b (Expression orx) = (if b then 6 else 1) + cost_OrExpression b orx"
| "cost_OrExpression b (OrExpression l r) =
     (if b then 0 else 1) + cost_AndExpression b l
       + sum_list (map (\<lambda>x. (if b then 5 else 1) + cost_OrRHS b x) r)"
| "cost_OrRHS b (OrRHS a) = (if b then 0 else 1) + cost_AndExpression b a"
| "cost_AndExpression b (AndExpression l r) =
     (if b then 2 else 1) + cost_EqualExpr b l
       + sum_list (map (\<lambda>x. (if b then 3 else 1) + cost_AndRHS b x) r)"
| "cost_AndRHS b (AndRHS e) = (if b then 0 else 1) + cost_EqualExpr b e"

text \<open>
  The mutually recursive \<^verbatim>\<open>Normalise\<close> methods and \<^verbatim>\<open>EqualExpr.convertToTerms\<close>. The
  two \<open>_loop\<close> functions are the \<^verbatim>\<open>for _, rhs := range e.Right\<close> loops of
  \<^verbatim>\<open>OrExpression.Normalise\<close> and \<^verbatim>\<open>AndExpression.Normalise\<close>, with the slice they append
  to as accumulator. A panic of a callee ends the caller.
\<close>

function Expression_Normalise :: "Expression \<Rightarrow> panic + ASTExpr"
and OrExpression_Normalise :: "OrExpression \<Rightarrow> panic + ASTOr"
and OrRHS_Normalise_loop :: "OrRHS list \<Rightarrow> ASTAnd list \<Rightarrow> panic + ASTAnd list"
and OrRHS_Normalise :: "OrRHS \<Rightarrow> panic + ASTAnd list"
and AndExpression_Normalise :: "AndExpression \<Rightarrow> panic + ASTAnd list"
and AndRHS_convertToTerms_loop ::
  "AndRHS list \<Rightarrow> ASTTerm list list list \<Rightarrow> panic + ASTTerm list list list"
and EqualExpr_convertToTerms :: "EqualExpr \<Rightarrow> panic + ASTTerm list list"
and Paren_Normalise :: "Paren \<Rightarrow> panic + ASTExpr"
where
  "Expression_Normalise (Expression orx) =
     (case OrExpression_Normalise orx of
        Inl p \<Rightarrow> Inl p
      | Inr normalised \<Rightarrow> Inr (ASTExpr normalised))"
| "OrExpression_Normalise (OrExpression left right) =
     (case AndExpression_Normalise left of
        Inl p \<Rightarrow> Inl p
      | Inr terms \<Rightarrow>
          (case OrRHS_Normalise_loop right terms of
             Inl p \<Rightarrow> Inl p
           | Inr terms' \<Rightarrow> Inr (ASTOr terms')))"
| "OrRHS_Normalise_loop [] terms = Inr terms"
| "OrRHS_Normalise_loop (rhs # rest) terms =
     (case OrRHS_Normalise rhs of
        Inl p \<Rightarrow> Inl p
      | Inr ts \<Rightarrow> OrRHS_Normalise_loop rest (terms @ ts))"
| "OrRHS_Normalise (OrRHS expr) = AndExpression_Normalise expr"
| "AndExpression_Normalise (AndExpression left right) =
     (case EqualExpr_convertToTerms left of
        Inl p \<Rightarrow> Inl p
      | Inr t \<Rightarrow>
          (case AndRHS_convertToTerms_loop right [t] of
             Inl p \<Rightarrow> Inl p
           | Inr terms \<Rightarrow> Inr (crossProduct terms)))"
| "AndRHS_convertToTerms_loop [] terms = Inr terms"
| "AndRHS_convertToTerms_loop (AndRHS expr # rest) terms =
     (case EqualExpr_convertToTerms expr of
        Inl p \<Rightarrow> Inl p
      | Inr t \<Rightarrow> AndRHS_convertToTerms_loop rest (terms @ [t]))"
| "EqualExpr_convertToTerms e =
     (case e of
        EqualExpr_Paren p \<Rightarrow>
          (case Paren_Normalise p of
             Inl pn \<Rightarrow> Inl pn
           | Inr normalised \<Rightarrow>
               Inr (map ASTAnd_Terms (ASTOr_Terms (ASTExpr_Or normalised))))
      | _ \<Rightarrow>
          (case EqualExpr_Normalise e of
             Inl pn \<Rightarrow> Inl pn
           | Inr t \<Rightarrow> Inr [[t]]))"
| "Paren_Normalise (Paren isNot nested) =
     (if isNot
      then (case Expression_invert nested of
              Inl p \<Rightarrow> Inl p
            | Inr inverted \<Rightarrow> Expression_Normalise inverted)
      else Expression_Normalise nested)"
  by pat_completeness auto
termination
proof -
  have paren: "cost_Paren False (Paren_invert p) = cost_Paren True p" for p
    by (cases p) (simp add: Paren_invert_def)
  have eq: "cost_EqualExpr False (EqualExpr_invert e) = cost_EqualExpr True e" for e
    by (cases e) (simp_all add: paren)
  have andrhs: "1 + cost_OrRHS False (AndRHS_invert x) = 3 + cost_AndRHS True x" for x
    by (cases x) (simp add: AndRHS_invert_def eq)
  have andrhss: "sum_list (map (\<lambda>x. 1 + cost_OrRHS False x) (map AndRHS_invert r))
        = sum_list (map (\<lambda>x. 3 + cost_AndRHS True x) r)" for r
    by (induction r) (simp_all add: andrhs del: One_nat_def)
  have andexpr: "cost_OrExpression False (AndExpression_invert a) = cost_AndExpression True a"
    for a
    using andrhss [of "And_Right a"]
    by (cases a) (simp add: AndExpression_invert_def eq)
  have orrhs: "1 + cost_AndRHS False (OrRHS_invert x) = 5 + cost_OrRHS True x" for x
    by (cases x) (simp add: OrRHS_invert_def andexpr)
  have orrhss: "sum_list (map (\<lambda>x. 1 + cost_AndRHS False x) (map OrRHS_invert r))
        = sum_list (map (\<lambda>x. 5 + cost_OrRHS True x) r)" for r
    by (induction r) (simp_all add: orrhs del: One_nat_def)
  have inverted:
    "cost_Expression False e' \<le> cost_Expression True e" if "Expression_invert e = Inr e'"
    for e e'
  proof (cases e)
    case (Expression orx)
    obtain l r where orx: "orx = OrExpression l r" by (cases orx)
    show ?thesis using that Expression orx orrhss [of r]
      by (auto simp: Expression_invert_def OrExpression_invert_def Let_def andexpr
          split: if_splits)
  qed
  show ?thesis
  proof (relation "measure
      (case_sum
        (case_sum
          (case_sum (cost_Expression False) (cost_OrExpression False))
          (case_sum (\<lambda>(rs, ts). sum_list (map (\<lambda>x. 1 + cost_OrRHS False x) rs))
                    (cost_OrRHS False)))
        (case_sum
          (case_sum (cost_AndExpression False)
                    (\<lambda>(rs, ts). sum_list (map (\<lambda>x. 1 + cost_AndRHS False x) rs)))
          (case_sum (cost_EqualExpr False) (cost_Paren False))))", goal_cases)
    case (13 isNot nested inverted)
    then show ?case
      using inverted [of nested inverted] by simp
  qed simp_all
qed

definition TopLevel_Normalise :: "TopLevel \<Rightarrow> panic + AST" where
  "TopLevel_Normalise t =
     (case TopLevel_Expression t of
        Some e \<Rightarrow>
          (case Expression_Normalise e of
             Inl p \<Rightarrow> Inl p
           | Inr expr \<Rightarrow> Inr (AST (Some expr)))
      | None \<Rightarrow> Inr (AST None))"

text \<open>
  \<^verbatim>\<open>Parse\<close>: the generated parser \<^verbatim>\<open>Parser.ParseString\<close> is a parameter, returning an
  error (\<open>Inl\<close>) or the concrete tree. The result is a panic, or the pair that the Go
  function returns: the error, or the normalised tree.
\<close>

definition Parse :: "(string \<Rightarrow> string + TopLevel) \<Rightarrow> string \<Rightarrow> panic + (string + AST)" where
  "Parse ParseString s =
     (case ParseString s of
        Inl err \<Rightarrow> Inr (Inl err)
      | Inr v \<Rightarrow>
          (case TopLevel_Normalise v of
             Inl p \<Rightarrow> Inl p
           | Inr ast \<Rightarrow> Inr (Inr ast)))"

declare EqualExpr_convertToTerms.simps [simp del]
section \<open>The meaning of filters\<close>

text \<open>
  A filter is a propositional formula over its leaf predicates. An atom is a leaf
  predicate without its negation: an equality, a membership, a strict or a weak
  \<^verbatim>\<open><\<close> comparison, or a glob match, on an attribute name and a literal. An assignment
  \<open>asg\<close> gives every atom a truth value; it stands for one entity. \<^verbatim>\<open>>=\<close> is the negation
  of \<^verbatim>\<open><\<close> and \<^verbatim>\<open>>\<close> the negation of \<^verbatim>\<open><=\<close>, which is how \<^verbatim>\<open>invert\<close> exchanges them. The
  \<open>eval\<close> functions give the value of the parsed tree and of the normalised tree under an
  assignment.
\<close>

datatype atom =
  Atom_Eq string Value
  | Atom_In string Values
  | Atom_Lt string Value
  | Atom_Le string Value
  | Atom_Glob string string

definition eval_Equality :: "(atom \<Rightarrow> bool) \<Rightarrow> Equality \<Rightarrow> bool" where
  "eval_Equality asg e = (asg (Atom_Eq (Equality_Var e) (Equality_Value e)) \<noteq> Equality_IsNot e)"

definition eval_Inclusion :: "(atom \<Rightarrow> bool) \<Rightarrow> Inclusion \<Rightarrow> bool" where
  "eval_Inclusion asg e =
     (asg (Atom_In (Inclusion_Var e) (Inclusion_Values e)) \<noteq> Inclusion_IsNot e)"

definition eval_Glob :: "(atom \<Rightarrow> bool) \<Rightarrow> Glob \<Rightarrow> bool" where
  "eval_Glob asg e = (asg (Atom_Glob (Glob_Var e) (Glob_Value e)) \<noteq> Glob_IsNot e)"

definition eval_LessThan :: "(atom \<Rightarrow> bool) \<Rightarrow> LessThan \<Rightarrow> bool" where
  "eval_LessThan asg e = asg (Atom_Lt (LessThan_Var e) (LessThan_Value e))"

definition eval_GreaterOrEqualThan :: "(atom \<Rightarrow> bool) \<Rightarrow> GreaterOrEqualThan \<Rightarrow> bool" where
  "eval_GreaterOrEqualThan asg e =
     (\<not> asg (Atom_Lt (GreaterOrEqualThan_Var e) (GreaterOrEqualThan_Value e)))"

definition eval_LessOrEqualThan :: "(atom \<Rightarrow> bool) \<Rightarrow> LessOrEqualThan \<Rightarrow> bool" where
  "eval_LessOrEqualThan asg e = asg (Atom_Le (LessOrEqualThan_Var e) (LessOrEqualThan_Value e))"

definition eval_GreaterThan :: "(atom \<Rightarrow> bool) \<Rightarrow> GreaterThan \<Rightarrow> bool" where
  "eval_GreaterThan asg e = (\<not> asg (Atom_Le (GreaterThan_Var e) (GreaterThan_Value e)))"

fun eval_EqualExpr :: "(atom \<Rightarrow> bool) \<Rightarrow> EqualExpr \<Rightarrow> bool"
and eval_Paren :: "(atom \<Rightarrow> bool) \<Rightarrow> Paren \<Rightarrow> bool"
and eval_Expression :: "(atom \<Rightarrow> bool) \<Rightarrow> Expression \<Rightarrow> bool"
and eval_OrExpression :: "(atom \<Rightarrow> bool) \<Rightarrow> OrExpression \<Rightarrow> bool"
and eval_OrRHS :: "(atom \<Rightarrow> bool) \<Rightarrow> OrRHS \<Rightarrow> bool"
and eval_AndExpression :: "(atom \<Rightarrow> bool) \<Rightarrow> AndExpression \<Rightarrow> bool"
and eval_AndRHS :: "(atom \<Rightarrow> bool) \<Rightarrow> AndRHS \<Rightarrow> bool"
where
  "eval_EqualExpr asg (EqualExpr_Paren p) = eval_Paren asg p"
| "eval_EqualExpr asg (EqualExpr_Assign a) = eval_Equality asg a"
| "eval_EqualExpr asg (EqualExpr_Inclusion i) = eval_Inclusion asg i"
| "eval_EqualExpr asg (EqualExpr_LessThan l) = eval_LessThan asg l"
| "eval_EqualExpr asg (EqualExpr_LessOrEqualThan l) = eval_LessOrEqualThan asg l"
| "eval_EqualExpr asg (EqualExpr_GreaterThan g) = eval_GreaterThan asg g"
| "eval_EqualExpr asg (EqualExpr_GreaterOrEqualThan g) = eval_GreaterOrEqualThan asg g"
| "eval_EqualExpr asg (EqualExpr_Glob g) = eval_Glob asg g"
| "eval_Paren asg (Paren isNot nested) = (eval_Expression asg nested \<noteq> isNot)"
| "eval_Expression asg (Expression orx) = eval_OrExpression asg orx"
| "eval_OrExpression asg (OrExpression left right) =
     (eval_AndExpression asg left \<or> list_ex (eval_OrRHS asg) right)"
| "eval_OrRHS asg (OrRHS expr) = eval_AndExpression asg expr"
| "eval_AndExpression asg (AndExpression left right) =
     (eval_EqualExpr asg left \<and> list_all (eval_AndRHS asg) right)"
| "eval_AndRHS asg (AndRHS expr) = eval_EqualExpr asg expr"

definition eval_TopLevel :: "(atom \<Rightarrow> bool) \<Rightarrow> TopLevel \<Rightarrow> bool" where
  "eval_TopLevel asg t =
     (case TopLevel_Expression t of None \<Rightarrow> True | Some e \<Rightarrow> eval_Expression asg e)"

fun eval_ASTTerm :: "(atom \<Rightarrow> bool) \<Rightarrow> ASTTerm \<Rightarrow> bool" where
  "eval_ASTTerm asg (ASTTerm_Assign a) = eval_Equality asg a"
| "eval_ASTTerm asg (ASTTerm_Inclusion i) = eval_Inclusion asg i"
| "eval_ASTTerm asg (ASTTerm_LessThan l) = eval_LessThan asg l"
| "eval_ASTTerm asg (ASTTerm_LessOrEqualThan l) = eval_LessOrEqualThan asg l"
| "eval_ASTTerm asg (ASTTerm_GreaterThan g) = eval_GreaterThan asg g"
| "eval_ASTTerm asg (ASTTerm_GreaterOrEqualThan g) = eval_GreaterOrEqualThan asg g"
| "eval_ASTTerm asg (ASTTerm_Glob g) = eval_Glob asg g"

definition eval_ASTAnd :: "(atom \<Rightarrow> bool) \<Rightarrow> ASTAnd \<Rightarrow> bool" where
  "eval_ASTAnd asg a = list_all (eval_ASTTerm asg) (ASTAnd_Terms a)"

definition eval_ASTOr :: "(atom \<Rightarrow> bool) \<Rightarrow> ASTOr \<Rightarrow> bool" where
  "eval_ASTOr asg d = list_ex (eval_ASTAnd asg) (ASTOr_Terms d)"

definition eval_ASTExpr :: "(atom \<Rightarrow> bool) \<Rightarrow> ASTExpr \<Rightarrow> bool" where
  "eval_ASTExpr asg e = eval_ASTOr asg (ASTExpr_Or e)"

definition eval_AST :: "(atom \<Rightarrow> bool) \<Rightarrow> AST \<Rightarrow> bool" where
  "eval_AST asg t = (case AST_Expr t of None \<Rightarrow> True | Some e \<Rightarrow> eval_ASTExpr asg e)"

text \<open>
  Side conditions on filters and assignments. \<open>stringValued\<close> holds of a leaf unless it
  compares \<^verbatim>\<open>$key\<close>, \<^verbatim>\<open>$owner\<close> or \<^verbatim>\<open>$creator\<close> with a number. \<open>allLeaves\<close> lifts a leaf
  condition to a tree. An assignment respects case when it does not tell a string, or a
  list of strings, on one of these three attributes from its lower-case form.

  \<open>keptInclusion negated\<close> holds of a leaf unless it is a membership test on one of the
  three attributes whose negate flag differs from \<open>negated\<close> or whose list holds numbers.
  \<open>leavesAt\<close> lifts such a condition to a tree and follows the negations: below a
  negated parenthesis the flag is flipped, as \<^verbatim>\<open>Normalise\<close> inverts the nested expression
  there. So \<open>leavesAt_TopLevel keptInclusion\<close> says that every membership test on one of
  the three attributes lists strings and is not negated once the negations are pushed to
  the leaves.
\<close>

fun isString :: "Value \<Rightarrow> bool" where
  "isString (Value_String s) = True"
| "isString (Value_Number n) = False"

fun stringValued :: "EqualExpr \<Rightarrow> bool" where
  "stringValued (EqualExpr_Assign a) =
     (isCaseInsensitiveVar (Equality_Var a) \<longrightarrow> isString (Equality_Value a))"
| "stringValued (EqualExpr_LessThan l) =
     (isCaseInsensitiveVar (LessThan_Var l) \<longrightarrow> isString (LessThan_Value l))"
| "stringValued (EqualExpr_LessOrEqualThan l) =
     (isCaseInsensitiveVar (LessOrEqualThan_Var l) \<longrightarrow> isString (LessOrEqualThan_Value l))"
| "stringValued (EqualExpr_GreaterThan g) =
     (isCaseInsensitiveVar (GreaterThan_Var g) \<longrightarrow> isString (GreaterThan_Value g))"
| "stringValued (EqualExpr_GreaterOrEqualThan g) =
     (isCaseInsensitiveVar (GreaterOrEqualThan_Var g) \<longrightarrow> isString (GreaterOrEqualThan_Value g))"
| "stringValued e = True"

fun keptInclusion :: "bool \<Rightarrow> EqualExpr \<Rightarrow> bool" where
  "keptInclusion negated (EqualExpr_Inclusion i) =
     (isCaseInsensitiveVar (Inclusion_Var i) \<longrightarrow>
        Inclusion_IsNot i = negated \<and> Numbers (Inclusion_Values i) = [])"
| "keptInclusion negated e = True"

fun allLeaves_EqualExpr :: "(EqualExpr \<Rightarrow> bool) \<Rightarrow> EqualExpr \<Rightarrow> bool"
and allLeaves_Paren :: "(EqualExpr \<Rightarrow> bool) \<Rightarrow> Paren \<Rightarrow> bool"
and allLeaves_Expression :: "(EqualExpr \<Rightarrow> bool) \<Rightarrow> Expression \<Rightarrow> bool"
and allLeaves_OrExpression :: "(EqualExpr \<Rightarrow> bool) \<Rightarrow> OrExpression \<Rightarrow> bool"
and allLeaves_OrRHS :: "(EqualExpr \<Rightarrow> bool) \<Rightarrow> OrRHS \<Rightarrow> bool"
and allLeaves_AndExpression :: "(EqualExpr \<Rightarrow> bool) \<Rightarrow> AndExpression \<Rightarrow> bool"
and allLeaves_AndRHS :: "(EqualExpr \<Rightarrow> bool) \<Rightarrow> AndRHS \<Rightarrow> bool"
where
  "allLeaves_EqualExpr P (EqualExpr_Paren p) = allLeaves_Paren P p"
| "allLeaves_EqualExpr P (EqualExpr_Assign a) = P (EqualExpr_Assign a)"
| "allLeaves_EqualExpr P (EqualExpr_Inclusion i) = P (EqualExpr_Inclusion i)"
| "allLeaves_EqualExpr P (EqualExpr_LessThan l) = P (EqualExpr_LessThan l)"
| "allLeaves_EqualExpr P (EqualExpr_LessOrEqualThan l) = P (EqualExpr_LessOrEqualThan l)"
| "allLeaves_EqualExpr P (EqualExpr_GreaterThan g) = P (EqualExpr_GreaterThan g)"
| "allLeaves_EqualExpr P (EqualExpr_GreaterOrEqualThan g) = P (EqualExpr_GreaterOrEqualThan g)"
| "allLeaves_EqualExpr P (EqualExpr_Glob g) = P (EqualExpr_Glob g)"
| "allLeaves_Paren P (Paren isNot nested) = allLeaves_Expression P nested"
| "allLeaves_Expression P (Expression orx) = allLeaves_OrExpression P orx"
| "allLeaves_OrExpression P (OrExpression left right) =
     (allLeaves_AndExpression P left \<and> list_all (allLeaves_OrRHS P) right)"
| "allLeaves_OrRHS P (OrRHS expr) = allLeaves_AndExpression P expr"
| "allLeaves_AndExpression P (AndExpression left right) =
     (allLeaves_EqualExpr P left \<and> list_all (allLeaves_AndRHS P) right)"
| "allLeaves_AndRHS P (AndRHS expr) = allLeaves_EqualExpr P expr"

definition allLeaves_TopLevel :: "(EqualExpr \<Rightarrow> bool) \<Rightarrow> TopLevel \<Rightarrow> bool" where
  "allLeaves_TopLevel P t =
     (case TopLevel_Expression t of None \<Rightarrow> True | Some e \<Rightarrow> allLeaves_Expression P e)"

fun leavesAt_EqualExpr :: "(bool \<Rightarrow> EqualExpr \<Rightarrow> bool) \<Rightarrow> bool \<Rightarrow> EqualExpr \<Rightarrow> bool"
and leavesAt_Paren :: "(bool \<Rightarrow> EqualExpr \<Rightarrow> bool) \<Rightarrow> bool \<Rightarrow> Paren \<Rightarrow> bool"
and leavesAt_Expression :: "(bool \<Rightarrow> EqualExpr \<Rightarrow> bool) \<Rightarrow> bool \<Rightarrow> Expression \<Rightarrow> bool"
and leavesAt_OrExpression :: "(bool \<Rightarrow> EqualExpr \<Rightarrow> bool) \<Rightarrow> bool \<Rightarrow> OrExpression \<Rightarrow> bool"
and leavesAt_OrRHS :: "(bool \<Rightarrow> EqualExpr \<Rightarrow> bool) \<Rightarrow> bool \<Rightarrow> OrRHS \<Rightarrow> bool"
and leavesAt_AndExpression :: "(bool \<Rightarrow> EqualExpr \<Rightarrow> bool) \<Rightarrow> bool \<Rightarrow> AndExpression \<Rightarrow> bool"
and leavesAt_AndRHS :: "(bool \<Rightarrow> EqualExpr \<Rightarrow> bool) \<Rightarrow> bool \<Rightarrow> AndRHS \<Rightarrow> bool"
where
  "leavesAt_EqualExpr P negated (EqualExpr_Paren p) = leavesAt_Paren P negated p"
| "leavesAt_EqualExpr P negated (EqualExpr_Assign a) = P negated (EqualExpr_Assign a)"
| "leavesAt_EqualExpr P negated (EqualExpr_Inclusion i) = P negated (EqualExpr_Inclusion i)"
| "leavesAt_EqualExpr P negated (EqualExpr_LessThan l) = P negated (EqualExpr_LessThan l)"
| "leavesAt_EqualExpr P negated (EqualExpr_LessOrEqualThan l) =
     P negated (EqualExpr_LessOrEqualThan l)"
| "leavesAt_EqualExpr P negated (EqualExpr_GreaterThan g) = P negated (EqualExpr_GreaterThan g)"
| "leavesAt_EqualExpr P negated (EqualExpr_GreaterOrEqualThan g) =
     P negated (EqualExpr_GreaterOrEqualThan g)"
| "leavesAt_EqualExpr P negated (EqualExpr_Glob g) = P negated (EqualExpr_Glob g)"
| "leavesAt_Paren P negated (Paren isNot nested) =
     leavesAt_Expression P (negated \<noteq> isNot) nested"
| "leavesAt_Expression P negated (Expression orx) = leavesAt_OrExpression P negated orx"
| "leavesAt_OrExpression P negated (OrExpression left right) =
     (leavesAt_AndExpression P negated left \<and> list_all (leavesAt_OrRHS P negated) right)"
| "leavesAt_OrRHS P negated (OrRHS expr) = leavesAt_AndExpression P negated expr"
| "leavesAt_AndExpression P negated (AndExpression left right) =
     (leavesAt_EqualExpr P negated left \<and> list_all (leavesAt_AndRHS P negated) right)"
| "leavesAt_AndRHS P negated (AndRHS expr) = leavesAt_EqualExpr P negated expr"

definition leavesAt_TopLevel :: "(bool \<Rightarrow> EqualExpr \<Rightarrow> bool) \<Rightarrow> TopLevel \<Rightarrow> bool" where
  "leavesAt_TopLevel P t =
     (case TopLevel_Expression t of None \<Rightarrow> True | Some e \<Rightarrow> leavesAt_Expression P False e)"

definition respectsCase :: "(atom \<Rightarrow> bool) \<Rightarrow> bool" where
  "respectsCase asg \<longleftrightarrow>
     (\<forall>v s. isCaseInsensitiveVar v \<longrightarrow>
        asg (Atom_Eq v (Value_String (ToLower s))) = asg (Atom_Eq v (Value_String s))
      \<and> asg (Atom_Lt v (Value_String (ToLower s))) = asg (Atom_Lt v (Value_String s))
      \<and> asg (Atom_Le v (Value_String (ToLower s))) = asg (Atom_Le v (Value_String s)))
     \<and> (\<forall>v ss. isCaseInsensitiveVar v \<longrightarrow>
          asg (Atom_In v (Values (map ToLower ss) [])) = asg (Atom_In v (Values ss [])))"


definition nonEmptyAlts :: "ASTTerm list list \<Rightarrow> bool" where
  "nonEmptyAlts d \<longleftrightarrow> d \<noteq> [] \<and> list_all (\<lambda>alt. alt \<noteq> []) d"

definition nonEmptyAnds :: "ASTAnd list \<Rightarrow> bool" where
  "nonEmptyAnds ts \<longleftrightarrow> ts \<noteq> [] \<and> list_all (\<lambda>c. ASTAnd_Terms c \<noteq> []) ts"

definition reparenthesise :: "EqualExpr \<Rightarrow> EqualExpr" where
  "reparenthesise x =
     EqualExpr_Paren (Paren False (Expression (OrExpression (AndExpression x []) [])))"

subsection \<open>Example filters\<close>

text \<open>
  Parse trees of concrete filters, used to run the model: \<open>filter_of leaf\<close> is the tree of
  a filter that consists of the single operand \<open>leaf\<close>; \<open>owner_equals_5\<close> is
  \<^verbatim>\<open>$owner = 5\<close>, \<open>owner_equals_0xA\<close> is \<^verbatim>\<open>$owner = "0xA"\<close>, \<open>a_and_b\<close> is
  \<^verbatim>\<open>a = 1 && b = 2\<close> and \<open>owner_not_in_0xAB\<close> the leaf \<^verbatim>\<open>$owner NOT IN ("0xAB")\<close>.
  \<open>conjuncts\<close> lists the operands of the first conjunction of an expression.
  \<open>not_excluded_or_small\<close> is \<^verbatim>\<open>!($owner NOT IN ("0xAB") || n < 3)\<close>, and \<open>owner_in_0xAB\<close>
  is \<^verbatim>\<open>$owner IN ("0xAB")\<close>.
\<close>

definition filter_of :: "EqualExpr \<Rightarrow> TopLevel" where
  "filter_of leaf = TopLevel (Some (Expression (OrExpression (AndExpression leaf []) [])))"

definition owner_equals_5 :: TopLevel where
  "owner_equals_5 = filter_of (EqualExpr_Assign (Equality ''$owner'' False (Value_Number 5)))"


definition a_and_b :: Expression where
  "a_and_b =
     Expression (OrExpression
       (AndExpression (EqualExpr_Assign (Equality ''a'' False (Value_Number 1)))
          [AndRHS (EqualExpr_Assign (Equality ''b'' False (Value_Number 2)))]) [])"

definition conjuncts :: "Expression \<Rightarrow> EqualExpr list" where
  "conjuncts e =
     And_Left (Or_Left (Expression_Or e)) # map AndRHS_Expr (And_Right (Or_Left (Expression_Or e)))"

definition owner_not_in_0xAB :: Inclusion where
  "owner_not_in_0xAB = Inclusion ''$owner'' True (Values [''0xAB''] [])"


definition owner_in_0xAB :: TopLevel where
  "owner_in_0xAB = filter_of (EqualExpr_Inclusion (Inclusion ''$owner'' False (Values [''0xAB''] [])))"

section \<open>The library functions that the cursor codec calls\<close>



definition fromHexChar :: "char \<Rightarrow> nat option" where
  "fromHexChar c =
     (if CHR ''0'' \<le> c \<and> c \<le> CHR ''9'' then Some (of_char c - of_char CHR ''0'')
      else if CHR ''a'' \<le> c \<and> c \<le> CHR ''f'' then Some (of_char c - of_char CHR ''a'' + 10)
      else if CHR ''A'' \<le> c \<and> c \<le> CHR ''F'' then Some (of_char c - of_char CHR ''A'' + 10)
      else None)"

fun hex_DecodeString :: "string \<Rightarrow> string option" where
  "hex_DecodeString [] = Some []"
| "hex_DecodeString [c] = None"
| "hex_DecodeString (p # q # rest) =
     (case (fromHexChar p, fromHexChar q, hex_DecodeString rest) of
        (Some a, Some b, Some bs) \<Rightarrow> Some (char_of (a * 16 + b) # bs)
      | _ \<Rightarrow> None)"



definition decodeStd :: "char \<Rightarrow> nat option" where
  "decodeStd c =
     (if CHR ''A'' \<le> c \<and> c \<le> CHR ''Z'' then Some (of_char c - of_char CHR ''A'')
      else if CHR ''a'' \<le> c \<and> c \<le> CHR ''z'' then Some (of_char c - of_char CHR ''a'' + 26)
      else if CHR ''0'' \<le> c \<and> c \<le> CHR ''9'' then Some (of_char c - of_char CHR ''0'' + 52)
      else if c = CHR ''+'' then Some 62
      else if c = CHR ''/'' then Some 63
      else None)"

fun decodeQuanta :: "string \<Rightarrow> string option" where
  "decodeQuanta [] = Some []"
| "decodeQuanta [w, x, y, z] =
     (if z = CHR ''='' then
        (if y = CHR ''='' then
           (case (decodeStd w, decodeStd x) of
              (Some p, Some q) \<Rightarrow> Some [char_of (p * 4 + q div 16)]
            | _ \<Rightarrow> None)
         else
           (case (decodeStd w, decodeStd x, decodeStd y) of
              (Some p, Some q, Some r) \<Rightarrow>
                Some [char_of (p * 4 + q div 16), char_of (q mod 16 * 16 + r div 4)]
            | _ \<Rightarrow> None))
      else
        (case (decodeStd w, decodeStd x, decodeStd y, decodeStd z) of
           (Some p, Some q, Some r, Some s) \<Rightarrow>
             Some [char_of (p * 4 + q div 16), char_of (q mod 16 * 16 + r div 4),
                   char_of (r mod 4 * 64 + s)]
         | _ \<Rightarrow> None))"
| "decodeQuanta (w # x # y # z # rest) =
     (case (decodeStd w, decodeStd x, decodeStd y, decodeStd z, decodeQuanta rest) of
        (Some p, Some q, Some r, Some s, Some bs) \<Rightarrow>
          Some (char_of (p * 4 + q div 16) # char_of (q mod 16 * 16 + r div 4)
                # char_of (r mod 4 * 64 + s) # bs)
      | _ \<Rightarrow> None)"
| "decodeQuanta _ = None"

definition base64_DecodeString :: "string \<Rightarrow> string option" where
  "base64_DecodeString s = decodeQuanta (filter (\<lambda>c. c \<noteq> CHR 0x0A \<and> c \<noteq> CHR 0x0D) s)"

text \<open>The decimal numeral of a natural number (\<^verbatim>\<open>%d\<close>), and its value read back.\<close>

function decimal :: "nat \<Rightarrow> string" where
  "decimal n =
     (if n < 10 then [char_of (of_char CHR ''0'' + n)]
      else decimal (n div 10) @ [char_of (of_char CHR ''0'' + n mod 10)])"
  by pat_completeness auto
termination
  by (relation "measure id") auto

declare decimal.simps [simp del]

definition isDigit :: "char \<Rightarrow> bool" where
  "isDigit c \<longleftrightarrow> CHR ''0'' \<le> c \<and> c \<le> CHR ''9''"

definition parseDecimal :: "string \<Rightarrow> nat" where
  "parseDecimal ds = foldl (\<lambda>acc c. 10 * acc + (of_char c - of_char CHR ''0'')) 0 ds"

text \<open>
  JSON. The codec marshals a flat array of integers, strings, booleans and nil, and
  unmarshals into \<^verbatim>\<open>[]any\<close>. The model covers the texts of such arrays without white
  space: \<open>json\<close> is an element, \<open>writeArray\<close> is the text that \<^verbatim>\<open>json.Marshal\<close> writes and
  \<open>readArray\<close> reads it back. The text \<^verbatim>\<open>null\<close> unmarshals to the nil slice. A text with
  white space, a fraction, an exponent, a nested array or an object is outside the model
  and is read as invalid (\<open>None\<close>), although the library accepts it; nothing below
  depends on such a text.

  In a string the writer escapes the quote and the backslash with a backslash, writes
  the short escapes for backspace, form feed, line feed, carriage return and tab, and
  writes any other control character and the characters \<^verbatim>\<open><\<close>, \<^verbatim>\<open>>\<close> and \<^verbatim>\<open>&\<close> as
  \<^verbatim>\<open>\u00\<close> and two lower-case hex digits. Bytes from \<open>0x80\<close> are written as they are, as
  the library does for valid UTF-8. The reader accepts the short escapes and
  \<^verbatim>\<open>\u\<close> with four hex digits for a code point below \<open>0x80\<close>.
\<close>

datatype json = JNull | JBool bool | JNumber int | JString string





definition unescape :: "char \<Rightarrow> char option" where
  "unescape d =
     (if d = CHR 0x22 \<or> d = CHR 0x5C \<or> d = CHR ''/'' then Some d
      else if d = CHR ''b'' then Some (CHR 0x08)
      else if d = CHR ''f'' then Some (CHR 0x0C)
      else if d = CHR ''n'' then Some (CHR 0x0A)
      else if d = CHR ''r'' then Some (CHR 0x0D)
      else if d = CHR ''t'' then Some (CHR 0x09)
      else None)"

definition getu4 :: "string \<Rightarrow> char option" where
  "getu4 s =
     (case map fromHexChar s of
        [Some a, Some b, Some c, Some d] \<Rightarrow>
          (let r = ((a * 16 + b) * 16 + c) * 16 + d
           in if r < 128 then Some (char_of r) else None)
      | _ \<Rightarrow> None)"

definition readEscape :: "string \<Rightarrow> (char \<times> string) option" where
  "readEscape s =
     (case s of
        [] \<Rightarrow> None
      | d # ds \<Rightarrow>
          if d = CHR ''u'' then
            (if length ds < 4 then None
             else map_option (\<lambda>r. (r, drop 4 ds)) (getu4 (take 4 ds)))
          else map_option (\<lambda>r. (r, ds)) (unescape d))"

function readStringBody :: "string \<Rightarrow> (string \<times> string) option" where
  "readStringBody [] = None"
| "readStringBody (c # cs) =
     (if c = CHR 0x22 then Some ([], cs)
      else if c = CHR 0x5C then
        (case readEscape cs of
           None \<Rightarrow> None
         | Some (r, rest) \<Rightarrow> map_option (apfst ((#) r)) (readStringBody rest))
      else if c < CHR 0x20 then None
      else map_option (apfst ((#) c)) (readStringBody cs))"
  by pat_completeness auto
termination
proof -
  have escape: "length rest \<le> length s" if "readEscape s = Some (r, rest)" for s r rest
    using that by (cases s) (auto simp add: readEscape_def split: if_splits)
  show ?thesis
    by (relation "measure length") (auto dest: escape)
qed

definition readNumber :: "bool \<Rightarrow> string \<Rightarrow> (json \<times> string) option" where
  "readNumber negative s =
     (let ds = takeWhile isDigit s in
      if ds = [] \<or> (1 < length ds \<and> hd ds = CHR ''0'') then None
      else Some (JNumber (if negative then - int (parseDecimal ds) else int (parseDecimal ds)),
                 dropWhile isDigit s))"

definition readValue :: "string \<Rightarrow> (json \<times> string) option" where
  "readValue s =
     (if take 4 s = ''null'' then Some (JNull, drop 4 s)
      else if take 4 s = ''true'' then Some (JBool True, drop 4 s)
      else if take 5 s = ''false'' then Some (JBool False, drop 5 s)
      else (case s of
              [] \<Rightarrow> None
            | c # cs \<Rightarrow>
                if c = CHR 0x22 then map_option (apfst JString) (readStringBody cs)
                else if c = CHR ''-'' then readNumber True cs
                else readNumber False s))"

function readElements :: "string \<Rightarrow> json list option" where
  "readElements s =
     (case readValue s of
        None \<Rightarrow> None
      | Some (v, rest) \<Rightarrow>
          (case rest of
             [] \<Rightarrow> None
           | c # cs \<Rightarrow>
               if c = CHR '']'' then (if cs = [] then Some [v] else None)
               else if c = CHR '','' then map_option ((#) v) (readElements cs)
               else None))"
  by pat_completeness auto
termination
proof -
  have escape: "length rest \<le> length s" if "readEscape s = Some (r, rest)" for s r rest
    using that by (cases s) (auto simp add: readEscape_def split: if_splits)
  have body: "length rest \<le> length s" if "readStringBody s = Some (t, rest)" for s t rest
    using that
  proof (induction s arbitrary: t rest rule: readStringBody.induct)
    case 1
    then show ?case by simp
  next
    case (2 c cs)
    show ?case
    proof (cases "c = CHR 0x22")
      case True
      with "2.prems" show ?thesis by simp
    next
      case quote: False
      show ?thesis
      proof (cases "c = CHR 0x5C")
        case True
        with quote "2.prems" obtain r rest' t' where
          e: "readEscape cs = Some (r, rest')" and b: "readStringBody rest' = Some (t', rest)"
          by (auto split: option.splits)
        from "2.IH"(1) [OF quote True e [THEN sym, THEN sym] refl b] escape [OF e]
        show ?thesis by simp
      next
        case False
        with quote "2.prems" obtain t' where
          c: "\<not> c < CHR 0x20" and b: "readStringBody cs = Some (t', rest)"
          by (auto split: if_splits)
        from "2.IH"(2) [OF quote False c b] show ?thesis by simp
      qed
    qed
  qed
  have number: "length rest \<le> length s" if "readNumber b s = Some (v, rest)" for b s v rest
    using that length_dropWhile_le [of isDigit s]
    by (auto simp: readNumber_def Let_def split: if_splits)
  have "length rest \<le> length s" if "readValue s = Some (v, rest)" for s v rest
    using that body number
    by (fastforce simp: readValue_def split: if_splits list.splits)
  then show ?thesis
    by (relation "measure length") fastforce+
qed

declare readElements.simps [simp del]

definition readArray :: "string \<Rightarrow> json list option" where
  "readArray s =
     (if s = ''null'' then Some []
      else (case s of
              [] \<Rightarrow> None
            | c # rest \<Rightarrow>
                if c \<noteq> CHR ''['' then None
                else if rest = '']'' then Some []
                else readElements rest))"



section \<open>The cursor codec (EncodeCursor and DecodeCursor)\<close>

text \<open>
  \<open>any\<close> holds the Go values that occur in a cursor and in the argument list of a query:
  nil, a boolean, an integer (\<^verbatim>\<open>int\<close> or \<^verbatim>\<open>uint64\<close>, with its value), a float64 (with its
  value, a rational number), a string, a byte slice that is not nil, and the nil byte
  slice. \<open>float64_of_int\<close> is the float64 nearest to an integer, ties to even: it is what
  \<^verbatim>\<open>json.Unmarshal\<close> stores for an integer numeral, and it is exact below \<open>2 ^ 53\<close>.
  \<open>int_of_float64\<close> is the conversion \<^verbatim>\<open>int(f)\<close>, which drops the fraction.
\<close>

datatype any =
  AnyNil
  | AnyBool bool
  | AnyInt int
  | AnyFloat64 rat
  | AnyString string
  | AnyBytes string
  | AnyNilBytes

function bitLen :: "int \<Rightarrow> nat" where
  "bitLen n = (if n \<le> 0 then 0 else Suc (bitLen (n div 2)))"
  by pat_completeness auto
termination
  by (relation "measure nat") auto

declare bitLen.simps [simp del]

definition roundToFloat64 :: "int \<Rightarrow> int" where
  "roundToFloat64 m =
     (if m < 2 ^ 53 then m
      else
        (let e = bitLen m - 53;
             q = m div 2 ^ e;
             r = m mod 2 ^ e;
             half = 2 ^ (e - 1)
         in (if half < r \<or> (r = half \<and> odd q) then q + 1 else q) * 2 ^ e))"

definition float64_of_int :: "int \<Rightarrow> int" where
  "float64_of_int n = (if n < 0 then - roundToFloat64 (- n) else roundToFloat64 n)"

definition int_of_float64 :: "rat \<Rightarrow> int" where
  "int_of_float64 f = (if 0 \<le> f then \<lfloor>f\<rfloor> else \<lceil>f\<rceil>)"




fun unmarshalAny :: "json \<Rightarrow> any" where
  "unmarshalAny JNull = AnyNil"
| "unmarshalAny (JBool b) = AnyBool b"
| "unmarshalAny (JNumber n) = AnyFloat64 (of_int (float64_of_int n))"
| "unmarshalAny (JString s) = AnyString s"

fun inFloat64Range :: "json \<Rightarrow> bool" where
  "inFloat64Range (JNumber n) = (\<bar>float64_of_int n\<bar> < 2 ^ 1024)"
| "inFloat64Range v = True"

definition json_Unmarshal :: "string \<Rightarrow> any list option" where
  "json_Unmarshal bs =
     (case readArray bs of
        None \<Rightarrow> None
      | Some vs \<Rightarrow> if list_all inFloat64Range vs then Some (map unmarshalAny vs) else None)"

text \<open>
  The structs of \<^verbatim>\<open>query_options.go\<close> and of the cursor. Of \<^verbatim>\<open>QueryOptions\<close> the fields that
  the codec and the emitter read are kept; the logger, \<^verbatim>\<open>IncludeData\<close> and the two cache
  fields are left out, and so are the log lines of the codec together with the
  \<^verbatim>\<open>json.Marshal(cursor)\<close> that feeds them: \<^verbatim>\<open>json.Marshal\<close> fails on no value of \<open>any\<close>,
  which is also why the library function is a total function here.
  \<open>error\<close> lists the errors that the functions modelled here return, \<open>panic\<close> above the
  run-time panics.
\<close>

datatype Column =
  Column (Column_Name: string) (Column_QualifiedName: string) (Column_IsBytes: bool)

datatype OrderBy = OrderBy (OrderBy_Column: Column) (OrderBy_Descending: bool)

datatype OrderByAnnotation =
  OrderByAnnotation (OrderByAnnotation_Name: string) (OrderByAnnotation_Type: string)
    (OrderByAnnotation_Descending: bool)

datatype CursorValue =
  CursorValue (CursorValue_ColumnName: string) (CursorValue_Value: any)
    (CursorValue_Descending: bool)

datatype Cursor = Cursor (Cursor_BlockNumber: uint64) (Cursor_ColumnValues: "CursorValue list")

datatype QueryOptions =
  QueryOptions (QueryOptions_AtBlock: uint64) (QueryOptions_Columns: "Column list")
    (QueryOptions_OrderBy: "OrderBy list")
    (QueryOptions_OrderByAnnotations: "OrderByAnnotation list")
    (QueryOptions_Cursor: "CursorValue list")

datatype error =
  UnknownColumn string
  | CursorColumnIndex error
  | CursorInvalidHex
  | CursorInvalidJson
  | CursorInvalidBlockNumber
  | CursorBadArity nat
  | CursorUnknownColumn
  | CursorBadBool int
  | CursorByteColumnNotString
  | CursorBadBase64
  | PaginationColumnIndex error
  | PaginationCondition error
  | BadOrderByType string

text \<open>
  \<^verbatim>\<open>GetColumnIndex\<close> is a binary search by column name: the loop of
  \<^verbatim>\<open>slices.BinarySearchFunc\<close> finds the first position whose name is not below the name
  looked for, and the column is found when that position holds the name.
\<close>

function BinarySearchFunc_loop :: "'a list \<Rightarrow> ('a \<Rightarrow> bool) \<Rightarrow> nat \<Rightarrow> nat \<Rightarrow> nat" where
  "BinarySearchFunc_loop x below i j =
     (if i < j then
        (let h = (i + j) div 2 in
         if below (x ! h) then BinarySearchFunc_loop x below (h + 1) j
         else BinarySearchFunc_loop x below i h)
      else i)"
  by pat_completeness auto
termination
  by (relation "measure (\<lambda>(x, below, i, j). j - i)") auto

declare BinarySearchFunc_loop.simps [simp del]

definition GetColumnIndex :: "QueryOptions \<Rightarrow> string \<Rightarrow> error + nat" where
  "GetColumnIndex opts column =
     (let n = length (QueryOptions_Columns opts);
          ix = BinarySearchFunc_loop (QueryOptions_Columns opts)
                 (\<lambda>a. Column_Name a < column) 0 n;
          found = (ix < n \<and> Column_Name (QueryOptions_Columns opts ! ix) = column)
      in if \<not> found then Inl (UnknownColumn column) else Inr ix)"

text \<open>
  \<^verbatim>\<open>EncodeCursor\<close> marshals the block number and, for each column value, the column
  index, the value and the direction as 0 or 1, and writes the JSON text in hex.
  \<^verbatim>\<open>DecodeCursor\<close> reads the array back in chunks of three. \<open>EncodeCursor_with\<close> and
  \<open>DecodeCursor_with\<close> are the two functions with \<^verbatim>\<open>json.Marshal\<close> and \<^verbatim>\<open>json.Unmarshal\<close> as
  parameters. The conversions and index expressions are written out: \<^verbatim>\<open>encoded[0]\<close> on an
  empty array and a column index below zero panic, and the error message for a
  direction that is not a number reads \<^verbatim>\<open>c[3]\<close> of a chunk of three elements, which
  panics as well. The conversions of a float64 to \<^verbatim>\<open>int\<close> drop the fraction, and the
  conversion of the block number to \<^verbatim>\<open>uint64\<close> is \<open>word_of_int\<close> of the integer part; Go
  leaves both open for a value out of the range of the target type.
\<close>

fun encodeColumnValues :: "QueryOptions \<Rightarrow> CursorValue list \<Rightarrow> any list \<Rightarrow> error + any list" where
  "encodeColumnValues opts [] encodedCursor = Inr encodedCursor"
| "encodeColumnValues opts (c # cs) encodedCursor =
     (case GetColumnIndex opts (CursorValue_ColumnName c) of
        Inl err \<Rightarrow> Inl (CursorColumnIndex err)
      | Inr columnIx \<Rightarrow>
          (let descending = (if CursorValue_Descending c then 1 else 0) in
           encodeColumnValues opts cs
             (encodedCursor @ [AnyInt (int columnIx), CursorValue_Value c, AnyInt descending])))"



definition decodeChunk :: "QueryOptions \<Rightarrow> any \<Rightarrow> any \<Rightarrow> any \<Rightarrow> panic + (error + CursorValue)" where
  "decodeChunk opts c0 c1 c2 =
     (case c0 of
        AnyFloat64 firstValue \<Rightarrow>
          (case c2 of
             AnyFloat64 thirdValue \<Rightarrow>
               (let columnIx = int_of_float64 firstValue;
                    descendingInt = int_of_float64 thirdValue
                in
                if int (length (QueryOptions_Columns opts)) \<le> columnIx
                then Inr (Inl CursorUnknownColumn)
                else if descendingInt \<noteq> 0 \<and> descendingInt \<noteq> 1
                then Inr (Inl (CursorBadBool descendingInt))
                else if columnIx < 0 then Inl IndexOutOfRange
                else
                  (let column = QueryOptions_Columns opts ! nat columnIx;
                       descending = (descendingInt = 1)
                   in if Column_IsBytes column then
                        (case c1 of
                           AnyString encoded \<Rightarrow>
                             (case base64_DecodeString encoded of
                                None \<Rightarrow> Inr (Inl CursorBadBase64)
                              | Some decoded \<Rightarrow>
                                  Inr (Inr (CursorValue (Column_Name column) (AnyBytes decoded)
                                              descending)))
                         | _ \<Rightarrow> Inr (Inl CursorByteColumnNotString))
                      else Inr (Inr (CursorValue (Column_Name column) c1 descending))))
           | _ \<Rightarrow> Inl IndexOutOfRange)
      | _ \<Rightarrow> Inr (Inl CursorUnknownColumn))"

fun decodeChunks :: "QueryOptions \<Rightarrow> any list \<Rightarrow> CursorValue list \<Rightarrow> panic + (error + CursorValue list)" where
  "decodeChunks opts [] columnValues = Inr (Inr columnValues)"
| "decodeChunks opts (c0 # c1 # c2 # rest) columnValues =
     (case decodeChunk opts c0 c1 c2 of
        Inl p \<Rightarrow> Inl p
      | Inr (Inl err) \<Rightarrow> Inr (Inl err)
      | Inr (Inr v) \<Rightarrow> decodeChunks opts rest (columnValues @ [v]))"
| "decodeChunks opts c columnValues = Inr (Inl (CursorBadArity (length c)))"

definition DecodeCursor_with ::
  "(string \<Rightarrow> any list option) \<Rightarrow> QueryOptions \<Rightarrow> string
     \<Rightarrow> panic + (error + Cursor option)" where
  "DecodeCursor_with unmarshal opts cursorStr =
     (if length cursorStr = 0 then Inr (Inr None)
      else
        (case hex_DecodeString cursorStr of
           None \<Rightarrow> Inr (Inl CursorInvalidHex)
         | Some bs \<Rightarrow>
             (case unmarshal bs of
                None \<Rightarrow> Inr (Inl CursorInvalidJson)
              | Some encoded \<Rightarrow>
                  (case encoded of
                     [] \<Rightarrow> Inl IndexOutOfRange
                   | first # rest \<Rightarrow>
                       (case first of
                          AnyFloat64 firstValue \<Rightarrow>
                            (case decodeChunks opts rest [] of
                               Inl p \<Rightarrow> Inl p
                             | Inr (Inl err) \<Rightarrow> Inr (Inl err)
                             | Inr (Inr columnValues) \<Rightarrow>
                                 Inr (Inr (Some (Cursor (word_of_int (int_of_float64 firstValue))
                                                   columnValues))))
                        | _ \<Rightarrow> Inr (Inl CursorInvalidBlockNumber))))))"

definition DecodeCursor :: "QueryOptions \<Rightarrow> string \<Rightarrow> panic + (error + Cursor option)" where
  "DecodeCursor opts cursorStr = DecodeCursor_with json_Unmarshal opts cursorStr"

subsection \<open>Cursors that the codec is meant for\<close>



text \<open>\<open>encodedCursor\<close> is the array that \<^verbatim>\<open>EncodeCursor\<close> hands to \<^verbatim>\<open>json.Marshal\<close>.\<close>

definition encodedCursor :: "QueryOptions \<Rightarrow> Cursor \<Rightarrow> any list" where
  "encodedCursor opts cursor =
     (case encodeColumnValues opts (Cursor_ColumnValues cursor)
             [AnyInt (uint (Cursor_BlockNumber cursor))] of
        Inl err \<Rightarrow> []
      | Inr encoded \<Rightarrow> encoded)"



subsection \<open>Example options and cursors\<close>

text \<open>
  \<open>opts0\<close> has the two columns that every query has, sorted by name. \<open>cursor8\<close> is the
  cursor of the specification's scenario 8; \<open>bigCursor\<close> has the block number
  \<open>2 ^ 53 + 1\<close>; \<open>nilKeyCursor\<close> has a nil byte slice for the entity key.
\<close>

definition columns0 :: "Column list" where
  "columns0 = [Column ''entity_key'' ''e.entity_key'' True,
               Column ''from_block'' ''e.from_block'' False]"

definition opts0 :: QueryOptions where
  "opts0 = QueryOptions 0 columns0 [] [] []"





section \<open>The query builder and the SQL emitter\<close>

text \<open>
  \<^verbatim>\<open>QueryBuilder\<close> is the Go struct of that name; the \<^verbatim>\<open>strings.Builder\<close> it points to is the
  text written so far. Every method that mutates the builder returns the new builder
  next to its result. \<^verbatim>\<open>argsCount\<close> and \<^verbatim>\<open>tableCounter\<close> are \<^verbatim>\<open>uint32\<close> and wrap. The
  arguments are Go values of type \<^verbatim>\<open>any\<close>; a \<^verbatim>\<open>uint64\<close> argument is the integer \<open>AnyInt\<close>
  of its value.

  \<^verbatim>\<open>pushArgument\<close> is the method that \<^verbatim>\<open>tables_method.go\<close> calls: it formats the
  placeholder with \<^verbatim>\<open>"$%d"\<close>.
\<close>

record QueryBuilder =
  queryBuilder :: string
  args :: "any list"
  argsCount :: "32 word"
  tableCounter :: "32 word"
  needsComma :: bool
  needsWhere :: bool
  options :: QueryOptions
  sqlDialect :: string

datatype SelectQuery = SelectQuery (SelectQuery_Query: string) (SelectQuery_Args: "any list")

fun Join :: "string list \<Rightarrow> string \<Rightarrow> string" where
  "Join [] sep = []"
| "Join [x] sep = x"
| "Join (x # xs) sep = x @ sep @ Join xs sep"

definition WriteString :: "QueryBuilder \<Rightarrow> string \<Rightarrow> QueryBuilder" where
  "WriteString b s = b\<lparr>queryBuilder := queryBuilder b @ s\<rparr>"

definition nextTableName :: "QueryBuilder \<Rightarrow> QueryBuilder \<times> string" where
  "nextTableName b =
     (let b' = b\<lparr>tableCounter := tableCounter b + 1\<rparr>
      in (b', ''table_'' @ decimal (unat (tableCounter b'))))"

definition pushArgument :: "QueryBuilder \<Rightarrow> any \<Rightarrow> QueryBuilder \<times> string" where
  "pushArgument b arg =
     (let b' = b\<lparr>args := args b @ [arg], argsCount := argsCount b + 1\<rparr>
      in (b', ''$'' @ decimal (unat (argsCount b'))))"

definition writeComma :: "QueryBuilder \<Rightarrow> QueryBuilder" where
  "writeComma b =
     (if needsComma b then WriteString b '', '' else b\<lparr>needsComma := True\<rparr>)"

fun pushArguments :: "QueryBuilder \<Rightarrow> CursorValue list \<Rightarrow> string list \<Rightarrow> QueryBuilder \<times> string list" where
  "pushArguments b [] placeholders = (b, placeholders)"
| "pushArguments b (val # rest) placeholders =
     (case pushArgument b (CursorValue_Value val) of
        (b', placeholder) \<Rightarrow> pushArguments b' rest (placeholders @ [placeholder]))"

fun subconditionLoop ::
  "QueryOptions \<Rightarrow> string list \<Rightarrow> nat \<Rightarrow> nat \<Rightarrow> CursorValue list \<Rightarrow> string list
     \<Rightarrow> error + string list" where
  "subconditionLoop opts placeholders i j [] subcondition = Inr subcondition"
| "subconditionLoop opts placeholders i j (from # rest) subcondition =
     (if i < j then Inr subcondition
      else
        (let operator = (if j < i then ''=''
                         else if CursorValue_Descending from then ''<'' else ''>'');
             arg = placeholders ! j
         in case GetColumnIndex opts (CursorValue_ColumnName from) of
              Inl err \<Rightarrow> Inl (PaginationColumnIndex err)
            | Inr columnIx \<Rightarrow>
                (let column = QueryOptions_Columns opts ! columnIx
                 in subconditionLoop opts placeholders i (j + 1) rest
                      (subcondition
                         @ [Column_QualifiedName column @ '' '' @ operator @ '' '' @ arg]))))"

fun paginationLoop ::
  "QueryOptions \<Rightarrow> string list \<Rightarrow> nat list \<Rightarrow> string list \<Rightarrow> error + string list" where
  "paginationLoop opts placeholders [] paginationConditions = Inr paginationConditions"
| "paginationLoop opts placeholders (i # rest) paginationConditions =
     (case subconditionLoop opts placeholders i 0 (QueryOptions_Cursor opts) [] of
        Inl err \<Rightarrow> Inl err
      | Inr subcondition \<Rightarrow>
          paginationLoop opts placeholders rest
            (paginationConditions @ [''('' @ Join subcondition '' AND '' @ '')'']))"

definition addPaginationArguments :: "QueryBuilder \<Rightarrow> QueryBuilder \<times> error option" where
  "addPaginationArguments b =
     (if 0 < length (QueryOptions_Cursor (options b)) then
        (case pushArguments b (QueryOptions_Cursor (options b)) [] of
           (b1, placeholders) \<Rightarrow>
             (case paginationLoop (options b1) placeholders
                     [0..<length (QueryOptions_Cursor (options b1))] [] of
                Inl err \<Rightarrow> (b1, Some err)
              | Inr paginationConditions \<Rightarrow>
                  (let paginationCondition = Join paginationConditions '' OR '';
                       b2 = (if needsWhere b1
                             then (WriteString b1 '' WHERE '')\<lparr>needsWhere := False\<rparr>
                             else WriteString b1 '' AND '');
                       b3 = WriteString b2 ''('';
                       b4 = WriteString b3 paginationCondition;
                       b5 = WriteString b4 '')''
                   in (b5, None))))
      else (b, None))"


definition QueryResultCountLimit :: nat where
  "QueryResultCountLimit = 200"

definition selector :: "Column \<Rightarrow> string" where
  "selector c = Column_QualifiedName c @ '' AS '' @ Column_Name c"

definition columnString :: "QueryOptions \<Rightarrow> string" where
  "columnString opts =
     (if length (QueryOptions_Columns opts) = 0 then ''1''
      else Join (map selector (QueryOptions_Columns opts)) '', '')"

definition createLeafQuery :: "QueryBuilder \<Rightarrow> string \<Rightarrow> QueryBuilder \<times> string" where
  "createLeafQuery b query =
     (case nextTableName b of
        (b1, tableName) \<Rightarrow>
          (let b2 = writeComma b1;
               b3 = WriteString b2 tableName;
               b4 = WriteString b3 '' AS ('';
               b5 = WriteString b4 query;
               b6 = WriteString b5 '')''
           in (b6, tableName)))"

definition createAnnotationQuery ::
  "QueryBuilder \<Rightarrow> string \<Rightarrow> string \<Rightarrow> QueryBuilder \<times> string" where
  "createAnnotationQuery b attributeType whereClause =
     (let tableName = (if attributeType = ''numeric'' then ''numeric_attributes''
                       else ''string_attributes'')
      in case pushArgument b (AnyInt (uint (QueryOptions_AtBlock (options b)))) of
           (b1, blockArg) \<Rightarrow>
             createLeafQuery b1
               (Join [''SELECT a.entity_key, a.from_block FROM'', tableName, ''AS a'', ''WHERE'',
                      whereClause,
                      ''AND '' @ blockArg @ '' BETWEEN a.from_block AND a.to_block - 1''] '' ''))"

text \<open>
  The \<^verbatim>\<open>if e.Value.String != nil { ... } else { attrType = "numeric"; ... }\<close> block that the
  comparison leaves and \<^verbatim>\<open>Equality\<close> share: the attribute type, the builder and the
  placeholder.
\<close>

fun pushValue :: "QueryBuilder \<Rightarrow> Value \<Rightarrow> string \<times> QueryBuilder \<times> string" where
  "pushValue b (Value_String s) =
     (case pushArgument b (AnyString s) of (b', valArg) \<Rightarrow> (''string'', b', valArg))"
| "pushValue b (Value_Number n) =
     (case pushArgument b (AnyInt (uint n)) of (b', valArg) \<Rightarrow> (''numeric'', b', valArg))"

definition comparisonQuery ::
  "QueryBuilder \<Rightarrow> string \<Rightarrow> string \<Rightarrow> Value \<Rightarrow> QueryBuilder \<times> string" where
  "comparisonQuery b var operator val =
     (case pushArgument b (AnyString var) of
        (b1, varArg) \<Rightarrow>
          (case pushValue b1 val of
             (attrType, b2, valArg) \<Rightarrow>
               createAnnotationQuery b2 attrType
                 (''a.key = '' @ varArg @ '' AND a.value '' @ operator @ '' '' @ valArg)))"

definition Glob_Evaluate :: "Glob \<Rightarrow> QueryBuilder \<Rightarrow> QueryBuilder \<times> string" where
  "Glob_Evaluate e b =
     (case pushArgument b (AnyString (Glob_Var e)) of
        (b1, varArg) \<Rightarrow>
          (case pushArgument b1 (AnyString (Glob_Value e)) of
             (b2, valArg) \<Rightarrow>
               (let op = (if Glob_IsNot e then ''NOT GLOB'' else ''GLOB'')
                in createAnnotationQuery b2 ''string''
                     (''a.key = '' @ varArg @ '' AND a.value '' @ op @ '' '' @ valArg))))"

definition LessThan_Evaluate :: "LessThan \<Rightarrow> QueryBuilder \<Rightarrow> QueryBuilder \<times> string" where
  "LessThan_Evaluate e b = comparisonQuery b (LessThan_Var e) ''<'' (LessThan_Value e)"

definition LessOrEqualThan_Evaluate ::
  "LessOrEqualThan \<Rightarrow> QueryBuilder \<Rightarrow> QueryBuilder \<times> string" where
  "LessOrEqualThan_Evaluate e b =
     comparisonQuery b (LessOrEqualThan_Var e) ''<='' (LessOrEqualThan_Value e)"

definition GreaterThan_Evaluate :: "GreaterThan \<Rightarrow> QueryBuilder \<Rightarrow> QueryBuilder \<times> string" where
  "GreaterThan_Evaluate e b = comparisonQuery b (GreaterThan_Var e) ''>'' (GreaterThan_Value e)"

definition GreaterOrEqualThan_Evaluate ::
  "GreaterOrEqualThan \<Rightarrow> QueryBuilder \<Rightarrow> QueryBuilder \<times> string" where
  "GreaterOrEqualThan_Evaluate e b =
     comparisonQuery b (GreaterOrEqualThan_Var e) ''>='' (GreaterOrEqualThan_Value e)"

definition Equality_Evaluate :: "Equality \<Rightarrow> QueryBuilder \<Rightarrow> QueryBuilder \<times> string" where
  "Equality_Evaluate e b =
     comparisonQuery b (Equality_Var e) (if Equality_IsNot e then ''!='' else ''='')
       (Equality_Value e)"

fun pushAll :: "QueryBuilder \<Rightarrow> any list \<Rightarrow> string list \<Rightarrow> QueryBuilder \<times> string list" where
  "pushAll b [] values = (b, values)"
| "pushAll b (v # vs) values =
     (case pushArgument b v of (b', placeholder) \<Rightarrow> pushAll b' vs (values @ [placeholder]))"

definition Inclusion_Evaluate :: "Inclusion \<Rightarrow> QueryBuilder \<Rightarrow> QueryBuilder \<times> string" where
  "Inclusion_Evaluate e b =
     (let strings = Strings (Inclusion_Values e);
          var = Inclusion_Var e;
          (attrType, pushed) =
            (if 0 < length strings then
               (''string'',
                pushAll b
                  (map (\<lambda>v. if var = OwnerAttributeKey \<or> var = CreatorAttributeKey
                                  \<or> var = KeyAttributeKey
                               then AnyString (ToLower v) else AnyString v) strings) [])
             else
               (''numeric'',
                pushAll b (map (\<lambda>n. AnyInt (uint n)) (Numbers (Inclusion_Values e))) []))
      in case pushed of
           (b1, values) \<Rightarrow>
             (let paramStr = Join values '', '';
                  condition = (if Inclusion_IsNot e
                               then ''a.value NOT IN ('' @ paramStr @ '')''
                               else ''a.value IN ('' @ paramStr @ '')'')
              in case pushArgument b1 (AnyString var) of
                   (b2, keyArg) \<Rightarrow>
                     createAnnotationQuery b2 attrType
                       (''a.key = '' @ keyArg @ '' AND '' @ condition)))"

fun EvaluateTerm :: "ASTTerm \<Rightarrow> QueryBuilder \<Rightarrow> QueryBuilder \<times> string" where
  "EvaluateTerm (ASTTerm_LessThan e) b = LessThan_Evaluate e b"
| "EvaluateTerm (ASTTerm_LessOrEqualThan e) b = LessOrEqualThan_Evaluate e b"
| "EvaluateTerm (ASTTerm_GreaterThan e) b = GreaterThan_Evaluate e b"
| "EvaluateTerm (ASTTerm_GreaterOrEqualThan e) b = GreaterOrEqualThan_Evaluate e b"
| "EvaluateTerm (ASTTerm_Glob e) b = Glob_Evaluate e b"
| "EvaluateTerm (ASTTerm_Assign e) b = Equality_Evaluate e b"
| "EvaluateTerm (ASTTerm_Inclusion e) b = Inclusion_Evaluate e b"

text \<open>
  The statement that \<^verbatim>\<open>EvaluateOr\<close> and \<^verbatim>\<open>EvaluateAnd\<close> write for every further operand:
  a fresh table that combines the result so far with the operand's table.
\<close>

definition combineTables ::
  "QueryBuilder \<Rightarrow> string \<Rightarrow> string \<Rightarrow> string \<Rightarrow> QueryBuilder \<times> string" where
  "combineTables b setOperator leftTable rightTable =
     (case nextTableName b of
        (b1, tableName) \<Rightarrow>
          (let b2 = writeComma b1;
               b3 = WriteString b2 tableName;
               b4 = WriteString b3 '' AS ('';
               b5 = WriteString b4 ''SELECT * FROM '';
               b6 = WriteString b5 leftTable;
               b7 = WriteString b6 setOperator;
               b8 = WriteString b7 ''SELECT * FROM '';
               b9 = WriteString b8 rightTable;
               b10 = WriteString b9 '')''
           in (b10, tableName)))"

fun EvaluateAnd_loop :: "ASTTerm list \<Rightarrow> QueryBuilder \<Rightarrow> string \<Rightarrow> QueryBuilder \<times> string" where
  "EvaluateAnd_loop [] b leftTable = (b, leftTable)"
| "EvaluateAnd_loop (rhs # rest) b leftTable =
     (case EvaluateTerm rhs b of
        (b1, rightTable) \<Rightarrow>
          (case combineTables b1 '' INTERSECT '' leftTable rightTable of
             (b2, tableName) \<Rightarrow> EvaluateAnd_loop rest b2 tableName))"

definition EvaluateAnd :: "ASTAnd \<Rightarrow> QueryBuilder \<Rightarrow> panic + QueryBuilder \<times> string" where
  "EvaluateAnd expr b =
     (case ASTAnd_Terms expr of
        [] \<Rightarrow> Inl IndexOutOfRange
      | first # rest \<Rightarrow>
          (case EvaluateTerm first b of
             (b1, leftTable) \<Rightarrow> Inr (EvaluateAnd_loop rest b1 leftTable)))"

fun EvaluateOr_loop ::
  "ASTAnd list \<Rightarrow> QueryBuilder \<Rightarrow> string \<Rightarrow> panic + QueryBuilder \<times> string" where
  "EvaluateOr_loop [] b leftTable = Inr (b, leftTable)"
| "EvaluateOr_loop (rhs # rest) b leftTable =
     (case EvaluateAnd rhs b of
        Inl p \<Rightarrow> Inl p
      | Inr (b1, rightTable) \<Rightarrow>
          (case combineTables b1 '' UNION '' leftTable rightTable of
             (b2, tableName) \<Rightarrow> EvaluateOr_loop rest b2 tableName))"

definition EvaluateOr :: "ASTOr \<Rightarrow> QueryBuilder \<Rightarrow> panic + QueryBuilder \<times> string" where
  "EvaluateOr expr b =
     (case ASTOr_Terms expr of
        [] \<Rightarrow> Inl IndexOutOfRange
      | first # rest \<Rightarrow>
          (case EvaluateAnd first b of
             Inl p \<Rightarrow> Inl p
           | Inr (b1, leftTable) \<Rightarrow> EvaluateOr_loop rest b1 leftTable))"

definition EvaluateExpr :: "ASTExpr \<Rightarrow> QueryBuilder \<Rightarrow> panic + QueryBuilder \<times> string" where
  "EvaluateExpr expr builder = EvaluateOr (ASTExpr_Or expr) (WriteString builder ''WITH '')"

fun orderByJoins ::
  "OrderByAnnotation list \<Rightarrow> nat \<Rightarrow> QueryBuilder \<Rightarrow> error + QueryBuilder" where
  "orderByJoins [] i builder = Inr builder"
| "orderByJoins (orderBy # rest) i builder =
     (if OrderByAnnotation_Type orderBy \<noteq> ''string''
         \<and> OrderByAnnotation_Type orderBy \<noteq> ''numeric''
      then Inl (BadOrderByType (OrderByAnnotation_Name orderBy))
      else
        (let tableName = (if OrderByAnnotation_Type orderBy = ''string''
                          then ''string_attributes'' else ''numeric_attributes'');
             sortingTable = ''arkiv_annotation_sorting'' @ decimal i
         in case pushArgument builder (AnyString (OrderByAnnotation_Name orderBy)) of
              (b1, keyPlaceholder) \<Rightarrow>
                orderByJoins rest (i + 1)
                  (WriteString b1
                     ('' LEFT JOIN '' @ tableName @ '' AS '' @ sortingTable
                      @ '' ON '' @ sortingTable @ ''.entity_key = e.entity_key''
                      @ '' AND '' @ sortingTable @ ''.from_block = e.from_block''
                      @ '' AND '' @ sortingTable @ ''.key = '' @ keyPlaceholder))))"

definition EvaluateAST :: "AST \<Rightarrow> QueryOptions \<Rightarrow> panic + (error + SelectQuery)" where
  "EvaluateAST ast opts =
     (let builder = \<lparr>queryBuilder = [], args = [], argsCount = 0, tableCounter = 0,
                      needsComma = False, needsWhere = True, options = opts, sqlDialect = []\<rparr>;
          selected =
            (case AST_Expr ast of
               Some expr \<Rightarrow>
                 (case EvaluateExpr expr builder of
                    Inl p \<Rightarrow> Inl p
                  | Inr (b1, keys) \<Rightarrow>
                      Inr (WriteString b1
                             (Join ['' SELECT'', columnString (options builder), ''FROM'', keys,
                                    ''AS keys INNER JOIN payloads AS e INDEXED BY payloads_entity_key_index ON keys.entity_key = e.entity_key AND keys.from_block = e.from_block'']
                                '' '')))
             | None \<Rightarrow>
                 Inr (WriteString builder
                        (Join [''SELECT'', columnString (options builder), ''FROM payloads AS e'']
                           '' '')))
      in case selected of
           Inl p \<Rightarrow> Inl p
         | Inr b2 \<Rightarrow>
             (case orderByJoins (QueryOptions_OrderByAnnotations (options b2)) 0 b2 of
                Inl err \<Rightarrow> Inr (Inl err)
              | Inr b3 \<Rightarrow>
                  (case addPaginationArguments b3 of
                     (b4, Some err) \<Rightarrow> Inr (Inl (PaginationCondition err))
                   | (b4, None) \<Rightarrow>
                       (let b5 = (if needsWhere b4
                                  then (WriteString b4 '' WHERE '')\<lparr>needsWhere := False\<rparr>
                                  else WriteString b4 '' AND '')
                        in case pushArgument b5 (AnyInt (uint (QueryOptions_AtBlock (options b5)))) of
                             (b6, blockArg) \<Rightarrow>
                               (let b7 = WriteString b6
                                           (blockArg @ '' BETWEEN e.from_block AND e.to_block - 1'');
                                    b8 = WriteString b7 '' ORDER BY '';
                                    orderColumns =
                                      map (\<lambda>ob. Column_Name (OrderBy_Column ob)
                                                  @ (if OrderBy_Descending ob then '' DESC''
                                                     else []))
                                        (QueryOptions_OrderBy (options b8));
                                    b9 = WriteString b8 (Join orderColumns '', '');
                                    b10 = WriteString b9
                                            ('' LIMIT '' @ decimal QueryResultCountLimit)
                                in Inr (Inr (SelectQuery (queryBuilder b10) (args b10))))))))"

subsection \<open>The keyset predicate that the pagination step is meant to write\<close>

text \<open>
  The definitions of this subsection follow the description of the pagination step, not
  the code; the code is \<^verbatim>\<open>addPaginationArguments\<close> above. A cursor column is described by
  its qualified column name, its direction and the number of the parameter that holds
  its cursor value. Row \<open>i\<close> of the predicate has an equality for each of the first \<open>i\<close>
  columns and then the strict comparison of column \<open>i\<close>: \<^verbatim>\<open><\<close> when the column is
  descending, \<^verbatim>\<open>>\<close> otherwise.
\<close>

datatype spec_operator = OpEqual | OpLess | OpGreater

datatype spec_comparison =
  Comparison (Comparison_Column: string) (Comparison_Operator: spec_operator)
    (Comparison_Parameter: nat)

datatype spec_cursorColumn =
  CursorColumn (CursorColumn_Name: string) (CursorColumn_Descending: bool)
    (CursorColumn_Parameter: nat)

definition spec_equal :: "spec_cursorColumn \<Rightarrow> spec_comparison" where
  "spec_equal c = Comparison (CursorColumn_Name c) OpEqual (CursorColumn_Parameter c)"

definition spec_beyond :: "spec_cursorColumn \<Rightarrow> spec_comparison" where
  "spec_beyond c =
     Comparison (CursorColumn_Name c)
       (if CursorColumn_Descending c then OpLess else OpGreater) (CursorColumn_Parameter c)"

definition spec_keysetRow :: "spec_cursorColumn list \<Rightarrow> nat \<Rightarrow> spec_comparison list" where
  "spec_keysetRow cs i = map spec_equal (take i cs) @ [spec_beyond (cs ! i)]"

definition spec_keysetPredicate :: "spec_cursorColumn list \<Rightarrow> spec_comparison list list" where
  "spec_keysetPredicate cs = map (spec_keysetRow cs) [0..<length cs]"

text \<open>The SQL text of the predicate: rows joined by \<^verbatim>\<open>OR\<close>, each row in parentheses.\<close>

fun spec_operatorText :: "spec_operator \<Rightarrow> string" where
  "spec_operatorText OpEqual = ''=''"
| "spec_operatorText OpLess = ''<''"
| "spec_operatorText OpGreater = ''>''"

definition spec_comparisonText :: "spec_comparison \<Rightarrow> string" where
  "spec_comparisonText c =
     Comparison_Column c @ '' '' @ spec_operatorText (Comparison_Operator c) @ '' ''
       @ ''$'' @ decimal (Comparison_Parameter c)"

definition spec_rowText :: "spec_comparison list \<Rightarrow> string" where
  "spec_rowText r = ''('' @ Join (map spec_comparisonText r) '' AND '' @ '')''"

definition spec_predicateText :: "spec_comparison list list \<Rightarrow> string" where
  "spec_predicateText p = Join (map spec_rowText p) '' OR ''"

text \<open>
  The meaning of the predicate for a row of the table. The values of the columns and of
  the parameters are taken from one totally ordered type; \<open>row\<close> gives the value of each
  column and \<open>param\<close> the value bound to each parameter number.
\<close>

fun spec_holdsComparison ::
  "(string \<Rightarrow> 'v::linorder) \<Rightarrow> (nat \<Rightarrow> 'v) \<Rightarrow> spec_comparison \<Rightarrow> bool" where
  "spec_holdsComparison row param (Comparison c OpEqual k) = (row c = param k)"
| "spec_holdsComparison row param (Comparison c OpLess k) = (row c < param k)"
| "spec_holdsComparison row param (Comparison c OpGreater k) = (param k < row c)"

definition spec_holdsPredicate ::
  "(string \<Rightarrow> 'v::linorder) \<Rightarrow> (nat \<Rightarrow> 'v) \<Rightarrow> spec_comparison list list \<Rightarrow> bool" where
  "spec_holdsPredicate row param p = list_ex (list_all (spec_holdsComparison row param)) p"

text \<open>
  The lexicographic order on sort tuples. A tuple is given with the cursor's tuple as a
  list of triples: the direction of the column, the row's value and the cursor's value.
  The row strictly succeeds the cursor when, at the first column where the two differ,
  the row's value comes after the cursor's value in the direction of that column.
\<close>

fun spec_succeeds :: "(bool \<times> 'v::linorder \<times> 'v) list \<Rightarrow> bool" where
  "spec_succeeds [] = False"
| "spec_succeeds ((descending, r, c) # rest) =
     ((if descending then r < c else c < r) \<or> (r = c \<and> spec_succeeds rest))"

text \<open>
  The columns of the builder's cursor as the pagination step sees them: the qualified
  name of the column that \<^verbatim>\<open>GetColumnIndex\<close> finds, the direction, and the number that
  \<^verbatim>\<open>pushArgument\<close> gives to the value, counted from the builder's \<^verbatim>\<open>argsCount\<close>.
  \<open>placeholdersFrom b n\<close> are the placeholders of the next \<open>n\<close> arguments pushed on \<open>b\<close>.
\<close>

definition knownColumn :: "QueryOptions \<Rightarrow> CursorValue \<Rightarrow> bool" where
  "knownColumn opts cv =
     (case GetColumnIndex opts (CursorValue_ColumnName cv) of
        Inl err \<Rightarrow> False
      | Inr columnIx \<Rightarrow> True)"

definition qualifiedName :: "QueryOptions \<Rightarrow> string \<Rightarrow> string" where
  "qualifiedName opts column =
     (case GetColumnIndex opts column of
        Inl err \<Rightarrow> []
      | Inr columnIx \<Rightarrow> Column_QualifiedName (QueryOptions_Columns opts ! columnIx))"

definition parameterNumber :: "QueryBuilder \<Rightarrow> nat \<Rightarrow> nat" where
  "parameterNumber b j = unat (argsCount b + of_nat (Suc j))"

definition placeholdersFrom :: "QueryBuilder \<Rightarrow> nat \<Rightarrow> string list" where
  "placeholdersFrom b n = map (\<lambda>j. ''$'' @ decimal (parameterNumber b j)) [0..<n]"

definition cursorColumns :: "QueryBuilder \<Rightarrow> spec_cursorColumn list" where
  "cursorColumns b =
     map (\<lambda>j. let cv = QueryOptions_Cursor (options b) ! j
               in CursorColumn (qualifiedName (options b) (CursorValue_ColumnName cv))
                    (CursorValue_Descending cv) (parameterNumber b j))
       [0..<length (QueryOptions_Cursor (options b))]"

subsection \<open>Example options and builders\<close>

text \<open>
  \<open>defaultOrderBy\<close> is the order that \<^verbatim>\<open>NewQueryOptions\<close> builds when there are no order-by
  annotations: the primary key of the payloads table, ascending.
\<close>

definition defaultOrderBy :: "OrderBy list" where
  "defaultOrderBy = [OrderBy (Column ''from_block'' ''e.from_block'' False) False,
                     OrderBy (Column ''entity_key'' ''e.entity_key'' True) False]"

definition optsAll :: QueryOptions where
  "optsAll = QueryOptions 7 columns0 defaultOrderBy [] []"

definition optsCursor :: QueryOptions where
  "optsCursor = QueryOptions 7 columns0 defaultOrderBy []
     [CursorValue ''from_block'' (AnyFloat64 42) False,
      CursorValue ''entity_key'' (AnyBytes [CHR 0xDE, CHR 0xAD]) True]"

definition builderCursor :: QueryBuilder where
  "builderCursor =
     \<lparr>queryBuilder = ''SELECT 1 FROM payloads AS e'', args = [], argsCount = 0,
      tableCounter = 0, needsComma = False, needsWhere = True, options = optsCursor,
      sqlDialect = []\<rparr>"

text \<open>
  A reading of the values as integers, for the examples: a number is its integer part and a byte
  string is the big-endian number of its bytes. \<open>rowAfter\<close> is a row in the cursor's block
  with a smaller entity key.
\<close>

fun valueExample :: "any \<Rightarrow> int" where
  "valueExample (AnyFloat64 f) = int_of_float64 f"
| "valueExample (AnyInt n) = n"
| "valueExample (AnyBytes bs) = foldl (\<lambda>a c. 256 * a + of_char c) 0 bs"
| "valueExample v = 0"

definition rowAfter :: "string \<Rightarrow> int" where
  "rowAfter column = (if column = ''e.from_block'' then 42
                      else if column = ''e.entity_key'' then 0xDEAC else 0)"

section \<open>The filter language: supporting lemmas\<close>

lemma eval_Paren_invert: "eval_Paren asg (Paren_invert p) = (\<not> eval_Paren asg p)"
  by (cases p) (auto simp: Paren_invert_def)

lemma eval_EqualExpr_invert: "eval_EqualExpr asg (EqualExpr_invert e) = (\<not> eval_EqualExpr asg e)"
  by (cases e)
    (auto simp: eval_Paren_invert eval_Equality_def eval_Inclusion_def eval_Glob_def
      eval_LessThan_def eval_GreaterOrEqualThan_def eval_LessOrEqualThan_def eval_GreaterThan_def
      Equality_invert_def Inclusion_invert_def Glob_invert_def LessThan_invert_def
      GreaterOrEqualThan_invert_def LessOrEqualThan_invert_def GreaterThan_invert_def)

lemma eval_AndRHS_invert: "eval_OrRHS asg (AndRHS_invert r) = (\<not> eval_AndRHS asg r)"
  by (cases r) (simp add: AndRHS_invert_def eval_EqualExpr_invert)

lemma eval_AndExpression_invert:
  "eval_OrExpression asg (AndExpression_invert a) = (\<not> eval_AndExpression asg a)"
proof (cases a)
  case (AndExpression l r)
  have "list_ex (eval_OrRHS asg) (map AndRHS_invert r) = (\<not> list_all (eval_AndRHS asg) r)"
    by (induction r) (simp_all add: eval_AndRHS_invert)
  then show ?thesis using AndExpression
    by (simp add: AndExpression_invert_def eval_EqualExpr_invert)
qed

lemma eval_OrRHS_invert: "eval_AndRHS asg (OrRHS_invert r) = (\<not> eval_OrRHS asg r)"
  by (cases r) (simp add: OrRHS_invert_def eval_AndExpression_invert)

lemma eval_OrExpression_invert:
  "eval_AndExpression asg (OrExpression_invert e) = (\<not> eval_OrExpression asg e)"
proof (cases e)
  case (OrExpression l r)
  have "list_all (eval_AndRHS asg) (map OrRHS_invert r) = (\<not> list_ex (eval_OrRHS asg) r)"
    by (induction r) (simp_all add: eval_OrRHS_invert)
  then show ?thesis using OrExpression
    by (simp add: OrExpression_invert_def eval_AndExpression_invert)
qed

lemma Expression_invert_total: "\<exists>e'. Expression_invert e = Inr e'"
  by (simp add: Expression_invert_def OrExpression_invert_def Let_def)

lemma eval_Expression_invert:
  "Expression_invert e = Inr e' \<Longrightarrow> eval_Expression asg e' = (\<not> eval_Expression asg e)"
proof (cases e)
  case (Expression orx)
  assume a: "Expression_invert e = Inr e'"
  obtain l r where orx: "orx = OrExpression l r" by (cases orx)
  show ?thesis
  proof (cases r)
    case Nil
    with a Expression orx show ?thesis
      by (auto simp: Expression_invert_def OrExpression_invert_def Let_def
          eval_AndExpression_invert)
  next
    case (Cons x xs)
    with a Expression orx have "e' = Expression (OrExpression (OrExpression_invert orx) [])"
      by (auto simp: Expression_invert_def OrExpression_invert_def Let_def)
    then show ?thesis using Expression
      by (simp add: eval_OrExpression_invert)
  qed
qed

lemmas Normalise_induct =
  Expression_Normalise_OrExpression_Normalise_OrRHS_Normalise_loop_OrRHS_Normalise_AndExpression_Normalise_AndRHS_convertToTerms_loop_EqualExpr_convertToTerms_Paren_Normalise.induct

lemma allLeaves_EqualExpr_invert:
  assumes "\<forall>l. P (EqualExpr_invert l) = P l"
  shows "allLeaves_EqualExpr P (EqualExpr_invert e) = allLeaves_EqualExpr P e"
proof (cases e)
  case (EqualExpr_Paren p)
  then show ?thesis by (cases p) (simp add: Paren_invert_def)
qed (use assms [rule_format, of e] in simp_all)

lemma allLeaves_AndExpression_invert:
  assumes "\<forall>l. P (EqualExpr_invert l) = P l"
  shows "allLeaves_OrExpression P (AndExpression_invert a) = allLeaves_AndExpression P a"
proof (cases a)
  case (AndExpression l r)
  have "list_all (allLeaves_OrRHS P) (map AndRHS_invert r) = list_all (allLeaves_AndRHS P) r"
  proof (induction r)
    case (Cons x xs)
    then show ?case
      by (cases x) (simp add: AndRHS_invert_def allLeaves_EqualExpr_invert [OF assms])
  qed simp
  then show ?thesis using AndExpression
    by (simp add: AndExpression_invert_def allLeaves_EqualExpr_invert [OF assms])
qed

lemma allLeaves_Expression_invert:
  assumes "\<forall>l. P (EqualExpr_invert l) = P l" and "Expression_invert e = Inr e'"
  shows "allLeaves_Expression P e' = allLeaves_Expression P e"
proof (cases e)
  case (Expression orx)
  obtain l r where orx: "orx = OrExpression l r" by (cases orx)
  have rs: "list_all (allLeaves_AndRHS P) (map OrRHS_invert r) = list_all (allLeaves_OrRHS P) r"
  proof (induction r)
    case (Cons x xs)
    then show ?case
      by (cases x) (simp add: OrRHS_invert_def allLeaves_AndExpression_invert [OF assms(1)])
  qed simp
  show ?thesis using assms(2) Expression orx rs
    by (auto simp: Expression_invert_def OrExpression_invert_def Let_def
        allLeaves_AndExpression_invert [OF assms(1)] split: if_splits)
qed

lemma stringValued_invert: "stringValued (EqualExpr_invert l) = stringValued l"
  by (cases l)
    (simp_all add: Equality_invert_def LessThan_invert_def GreaterOrEqualThan_invert_def
      LessOrEqualThan_invert_def GreaterThan_invert_def)










lemma EqualExpr_Normalise_total:
  assumes "stringValued e" and "\<forall>p. e \<noteq> EqualExpr_Paren p"
  shows "\<exists>t. EqualExpr_Normalise e = Inr t"
proof (cases e)
  case (EqualExpr_Assign a)
  with assms show ?thesis
    by (cases "Equality_Value a") (simp_all add: Equality_Normalise_def)
next
  case (EqualExpr_LessThan l)
  with assms show ?thesis
    by (cases "LessThan_Value l") (simp_all add: LessThan_Normalise_def)
next
  case (EqualExpr_LessOrEqualThan l)
  with assms show ?thesis
    by (cases "LessOrEqualThan_Value l") (simp_all add: LessOrEqualThan_Normalise_def)
next
  case (EqualExpr_GreaterThan g)
  with assms show ?thesis
    by (cases "GreaterThan_Value g") (simp_all add: GreaterThan_Normalise_def)
next
  case (EqualExpr_GreaterOrEqualThan g)
  with assms show ?thesis
    by (cases "GreaterOrEqualThan_Value g") (simp_all add: GreaterOrEqualThan_Normalise_def)
qed (use assms in simp_all)

lemma convertToTerms_leaf:
  "\<forall>p. e \<noteq> EqualExpr_Paren p \<Longrightarrow>
     EqualExpr_convertToTerms e = map_sum id (\<lambda>t. [[t]]) (EqualExpr_Normalise e)"
  by (cases e; cases "EqualExpr_Normalise e") (simp_all add: EqualExpr_convertToTerms.simps)

lemma allLeaves_leaf: "\<forall>p. e \<noteq> EqualExpr_Paren p \<Longrightarrow> allLeaves_EqualExpr P e = P e"
  by (cases e) simp_all

lemma Normalise_total:
  shows
    "allLeaves_Expression stringValued e \<longrightarrow> (\<exists>ast. Expression_Normalise e = Inr ast)"
    "allLeaves_OrExpression stringValued orx \<longrightarrow> (\<exists>ast. OrExpression_Normalise orx = Inr ast)"
    "list_all (allLeaves_OrRHS stringValued) ors \<longrightarrow>
       (\<exists>ts. OrRHS_Normalise_loop ors acc = Inr ts)"
    "allLeaves_OrRHS stringValued orhs \<longrightarrow> (\<exists>ts. OrRHS_Normalise orhs = Inr ts)"
    "allLeaves_AndExpression stringValued a \<longrightarrow> (\<exists>ts. AndExpression_Normalise a = Inr ts)"
    "list_all (allLeaves_AndRHS stringValued) ars \<longrightarrow>
       (\<exists>ts. AndRHS_convertToTerms_loop ars tacc = Inr ts)"
    "allLeaves_EqualExpr stringValued q \<longrightarrow> (\<exists>d. EqualExpr_convertToTerms q = Inr d)"
    "allLeaves_Paren stringValued p \<longrightarrow> (\<exists>ast. Paren_Normalise p = Inr ast)"
proof (induct e and orx and ors acc and orhs and a and ars tacc and q and p
    rule: Normalise_induct)
  case (9 e)
  show ?case
  proof (cases "\<exists>p. e = EqualExpr_Paren p")
    case True
    with 9 show ?thesis by (auto simp: EqualExpr_convertToTerms.simps split: sum.splits)
  next
    case leaf: False
    show ?thesis
    proof
      assume "allLeaves_EqualExpr stringValued e"
      with leaf have "stringValued e" by (simp add: allLeaves_leaf)
      with leaf obtain t where "EqualExpr_Normalise e = Inr t"
        using EqualExpr_Normalise_total [of e] by blast
      with leaf show "\<exists>d. EqualExpr_convertToTerms e = Inr d"
        by (simp add: convertToTerms_leaf)
    qed
  qed
next
  case (10 isNot nested)
  show ?case
  proof (cases isNot)
    case True
    obtain inverted where inv: "Expression_invert nested = Inr inverted"
      using Expression_invert_total by blast
    with 10 True show ?thesis
      by (simp add: allLeaves_Expression_invert [of stringValued nested inverted]
          stringValued_invert)
  next
    case False
    with 10 show ?thesis by simp
  qed
qed (auto split: sum.splits)

lemma nonEmptyAlts_Ands: "nonEmptyAlts (map ASTAnd_Terms ts) = nonEmptyAnds ts"
  by (simp add: nonEmptyAlts_def nonEmptyAnds_def list_all_iff)

lemma distribute_nonEmpty:
  assumes "nonEmptyAlts d" and "ast \<noteq> []"
  shows "nonEmptyAnds (distribute ast d)"
proof -
  have "distribute ast d \<noteq> []"
    using assms by (cases ast; cases d) (simp_all add: distribute_def nonEmptyAlts_def)
  moreover have "list_all (\<lambda>c. ASTAnd_Terms c \<noteq> []) (distribute ast d)"
    using assms(1) by (auto simp: distribute_def nonEmptyAlts_def list_all_iff)
  ultimately show ?thesis by (simp add: nonEmptyAnds_def)
qed

lemma foldl_distribute_nonEmpty:
  "list_all nonEmptyAlts terms \<Longrightarrow> nonEmptyAnds acc \<Longrightarrow> nonEmptyAnds (foldl distribute acc terms)"
proof (induction terms arbitrary: acc)
  case (Cons d ds)
  then show ?case
    using distribute_nonEmpty [of d acc] by (simp add: nonEmptyAnds_def)
qed simp

lemma crossProduct_nonEmpty:
  assumes "terms \<noteq> []" and "list_all nonEmptyAlts terms"
  shows "nonEmptyAnds (crossProduct terms)"
proof (cases terms)
  case (Cons d ds)
  with assms show ?thesis
    using foldl_distribute_nonEmpty [of ds "distribute [ASTAnd []] d"]
      distribute_nonEmpty [of d "[ASTAnd []]"]
    by (simp add: crossProduct_def)
qed (use assms in simp)

lemma Normalise_shape:
  shows
    "\<forall>ast. Expression_Normalise e = Inr ast \<longrightarrow> nonEmptyAnds (ASTOr_Terms (ASTExpr_Or ast))"
    "\<forall>ast. OrExpression_Normalise orx = Inr ast \<longrightarrow> nonEmptyAnds (ASTOr_Terms ast)"
    "\<forall>ts. nonEmptyAnds acc \<longrightarrow> OrRHS_Normalise_loop ors acc = Inr ts \<longrightarrow> nonEmptyAnds ts"
    "\<forall>ts. OrRHS_Normalise orhs = Inr ts \<longrightarrow> nonEmptyAnds ts"
    "\<forall>ts. AndExpression_Normalise a = Inr ts \<longrightarrow> nonEmptyAnds ts"
    "\<forall>ts. tacc \<noteq> [] \<longrightarrow> list_all nonEmptyAlts tacc \<longrightarrow>
        AndRHS_convertToTerms_loop ars tacc = Inr ts \<longrightarrow> ts \<noteq> [] \<and> list_all nonEmptyAlts ts"
    "\<forall>d. EqualExpr_convertToTerms q = Inr d \<longrightarrow> nonEmptyAlts d"
    "\<forall>ast. Paren_Normalise p = Inr ast \<longrightarrow> nonEmptyAnds (ASTOr_Terms (ASTExpr_Or ast))"
proof (induct e and orx and ors acc and orhs and a and ars tacc and q and p
    rule: Normalise_induct)
  case (4 rhs rest terms)
  then show ?case
    by (auto simp: nonEmptyAnds_def split: sum.splits)
next
  case (6 left right)
  then show ?case
    by (auto simp: crossProduct_nonEmpty split: sum.splits)
next
  case (9 e)
  show ?case
  proof (cases "\<exists>p. e = EqualExpr_Paren p")
    case True
    with 9 show ?thesis
      by (auto simp: nonEmptyAlts_Ands EqualExpr_convertToTerms.simps split: sum.splits)
  next
    case False
    then show ?thesis
      by (cases "EqualExpr_Normalise e")
        (simp_all add: convertToTerms_leaf nonEmptyAlts_def)
  qed
qed (auto split: sum.splits if_splits)

lemma EqualExpr_invert_invert: "EqualExpr_invert (EqualExpr_invert e) = e"
  by (cases e)
    (simp_all add: Paren_invert_def Equality_invert_def Inclusion_invert_def Glob_invert_def
      LessThan_invert_def GreaterOrEqualThan_invert_def LessOrEqualThan_invert_def
      GreaterThan_invert_def)

lemma crossProduct_single: "crossProduct [t] = map ASTAnd t"
  by (simp add: crossProduct_def distribute_def)

lemma AndExpression_Normalise_single:
  "AndExpression_Normalise (AndExpression x []) = map_sum id (map ASTAnd) (EqualExpr_convertToTerms x)"
  by (cases "EqualExpr_convertToTerms x") (simp_all add: crossProduct_single)

lemma OrExpression_Normalise_single:
  "OrExpression_Normalise (OrExpression a []) = map_sum id ASTOr (AndExpression_Normalise a)"
  by (cases "AndExpression_Normalise a") simp_all

lemma Expression_Normalise_map:
  "Expression_Normalise (Expression orx) = map_sum id ASTExpr (OrExpression_Normalise orx)"
  by (cases "OrExpression_Normalise orx") simp_all

lemma convertToTerms_Paren:
  "EqualExpr_convertToTerms (EqualExpr_Paren p)
     = map_sum id (\<lambda>n. map ASTAnd_Terms (ASTOr_Terms (ASTExpr_Or n))) (Paren_Normalise p)"
  by (cases "Paren_Normalise p") (simp_all add: EqualExpr_convertToTerms.simps)

lemma convertToTerms_reparenthesise:
  "EqualExpr_convertToTerms (reparenthesise x) = EqualExpr_convertToTerms x"
  by (cases "EqualExpr_convertToTerms x")
    (simp_all add: reparenthesise_def convertToTerms_Paren crossProduct_single comp_def)

lemma OrRHS_invert_AndRHS_invert:
  "OrRHS_invert (AndRHS_invert r) = AndRHS (reparenthesise (AndRHS_Expr r))"
  by (simp add: OrRHS_invert_def AndRHS_invert_def AndExpression_invert_def
      EqualExpr_invert_invert reparenthesise_def)

lemma loop_reparenthesise:
  "AndRHS_convertToTerms_loop (map (\<lambda>r. OrRHS_invert (AndRHS_invert r)) rs) acc
     = AndRHS_convertToTerms_loop rs acc"
proof (induction rs arbitrary: acc)
  case (Cons r rs)
  then show ?case
    by (cases r)
      (simp add: OrRHS_invert_AndRHS_invert convertToTerms_reparenthesise split: sum.splits)
qed simp

lemma Paren_Normalise_negated_inverse:
  "Paren_Normalise (Paren True (Expression (AndExpression_invert a)))
     = map_sum id (\<lambda>ts. ASTExpr (ASTOr ts)) (AndExpression_Normalise a)"
proof (cases a)
  case (AndExpression a0 rs)
  show ?thesis
  proof (cases rs)
    case Nil
    with AndExpression show ?thesis
      by (cases "EqualExpr_convertToTerms a0")
        (simp_all add: Expression_invert_def OrExpression_invert_def AndExpression_invert_def
          Let_def EqualExpr_invert_invert Expression_Normalise_map
          OrExpression_Normalise_single AndExpression_Normalise_single)
  next
    case (Cons r rs')
    have inv: "Expression_invert (Expression (AndExpression_invert a))
        = Inr (Expression (OrExpression
            (AndExpression (reparenthesise a0)
               (map (\<lambda>r. OrRHS_invert (AndRHS_invert r)) rs)) []))"
      using AndExpression Cons
      by (simp add: Expression_invert_def OrExpression_invert_def AndExpression_invert_def
          Let_def EqualExpr_invert_invert reparenthesise_def)
    have same: "AndExpression_Normalise
            (AndExpression (reparenthesise a0) (map (\<lambda>r. OrRHS_invert (AndRHS_invert r)) rs))
          = AndExpression_Normalise a"
      using AndExpression
      by (simp add: convertToTerms_reparenthesise loop_reparenthesise split: sum.splits)
    have "Paren_Normalise (Paren True (Expression (AndExpression_invert a)))
          = map_sum id ASTExpr (map_sum id ASTOr (AndExpression_Normalise a))"
      by (simp add: inv Expression_Normalise_map OrExpression_Normalise_single same
          del: Expression_Normalise.simps OrExpression_Normalise.simps
            AndExpression_Normalise.simps)
    then show ?thesis
      by (cases "AndExpression_Normalise a") simp_all
  qed
qed

lemma AndExpression_Normalise_negated_inverse:
  "AndExpression_Normalise
     (AndExpression (EqualExpr_Paren (Paren True (Expression (AndExpression_invert a)))) [])
   = AndExpression_Normalise a"
  by (cases "AndExpression_Normalise a")
    (simp_all add: AndExpression_Normalise_single convertToTerms_Paren
      Paren_Normalise_negated_inverse comp_def
      del: Paren_Normalise.simps AndExpression_Normalise.simps)

lemma AndRHS_invert_OrRHS_invert:
  "AndRHS_invert (OrRHS_invert r)
     = OrRHS (AndExpression
         (EqualExpr_Paren (Paren True (Expression (AndExpression_invert (OrRHS_Expr r))))) [])"
  by (simp add: AndRHS_invert_def OrRHS_invert_def Paren_invert_def)

lemma OrRHS_loop_negated_inverse:
  "OrRHS_Normalise_loop (map (\<lambda>r. AndRHS_invert (OrRHS_invert r)) rs) acc
     = OrRHS_Normalise_loop rs acc"
proof (induction rs arbitrary: acc)
  case (Cons r rs)
  then show ?case
    by (cases r)
      (simp add: AndRHS_invert_OrRHS_invert AndExpression_Normalise_negated_inverse
        del: AndExpression_Normalise.simps split: sum.splits)
qed simp

lemma Normalise_invert_invert:
  assumes "Expression_invert e = Inr e1" and "Expression_invert e1 = Inr e2"
  shows "Expression_Normalise e2 = Expression_Normalise e"
proof (cases e)
  case (Expression orx)
  obtain l r where orx: "orx = OrExpression l r" by (cases orx)
  show ?thesis
  proof (cases r)
    case Nil
    with assms(1) Expression orx have e1: "e1 = Expression (AndExpression_invert l)"
      by (simp add: Expression_invert_def OrExpression_invert_def Let_def)
    have "Expression_Normalise e2 = Paren_Normalise (Paren True e1)"
      using assms(2) by simp
    also have "\<dots> = map_sum id (\<lambda>ts. ASTExpr (ASTOr ts)) (AndExpression_Normalise l)"
      unfolding e1 by (rule Paren_Normalise_negated_inverse)
    also have "\<dots> = Expression_Normalise e"
      unfolding Expression orx Nil
      by (cases "AndExpression_Normalise l") simp_all
    finally show ?thesis .
  next
    case (Cons x xs)
    with assms(1) Expression orx
    have e1: "e1 = Expression (OrExpression (OrExpression_invert orx) [])"
      by (auto simp: Expression_invert_def OrExpression_invert_def Let_def)
    with assms(2) have e2: "e2 = Expression (AndExpression_invert (OrExpression_invert orx))"
      by (simp add: Expression_invert_def OrExpression_invert_def Let_def)
    have unfold: "AndExpression_invert (AndExpression x ys)
          = OrExpression (AndExpression (EqualExpr_invert x) []) (map AndRHS_invert ys)" for x ys
      by (simp add: AndExpression_invert_def)
    have shape: "AndExpression_invert (OrExpression_invert orx)
          = OrExpression
              (AndExpression
                 (EqualExpr_Paren (Paren True (Expression (AndExpression_invert l)))) [])
              (map (\<lambda>x. AndRHS_invert (OrRHS_invert x)) r)"
      by (simp add: orx OrExpression_invert_def unfold Paren_invert_def comp_def)
    have "OrExpression_Normalise (AndExpression_invert (OrExpression_invert orx))
          = OrExpression_Normalise orx"
      unfolding shape
      by (simp add: orx AndExpression_Normalise_negated_inverse OrRHS_loop_negated_inverse
          del: AndExpression_Normalise.simps split: sum.splits)
    then show ?thesis
      by (simp add: e2 Expression Expression_Normalise_map)
  qed
qed

section \<open>Claims about the filter language\<close>

lemmas metaVar_defs =
  isCaseInsensitiveVar_def KeyAttributeKey_def OwnerAttributeKey_def CreatorAttributeKey_def


lemma Normalise_owner_equals_5: "TopLevel_Normalise owner_equals_5 = Inl NilPointerDereference"
  by (simp add: owner_equals_5_def filter_of_def TopLevel_Normalise_def
      EqualExpr_convertToTerms.simps
      Equality_Normalise_def isCaseInsensitiveVar_def OwnerAttributeKey_def)



text \<open>
  The conditions of the amended claim below leave out the filters that meet one of the
  two defects of \<^verbatim>\<open>Normalise\<close>, and no others. A number compared with \<^verbatim>\<open>$key\<close>, \<^verbatim>\<open>$owner\<close>
  or \<^verbatim>\<open>$creator\<close> makes it panic (C2, C10). A membership test on one of them loses its
  negate flag and its numbers (C5): for \<^verbatim>\<open>$owner NOT IN ("0xAB")\<close> the normal form is
  \<^verbatim>\<open>$owner IN ("0xab")\<close>, which has the opposite value under every assignment that
  respects case. A membership test that is not negated is normalised as intended.
\<close>

lemma ToLower_0xAB: "ToLower ''0xAB'' = ''0xab''"
  by (simp add: ToLower_def toLowerChar_def)

lemma negated_inclusion_is_inverted:
  assumes "respectsCase asg"
  shows "TopLevel_Normalise (filter_of (EqualExpr_Inclusion owner_not_in_0xAB))
           = Inr (AST (Some (ASTExpr (ASTOr
               [ASTAnd [ASTTerm_Inclusion (Inclusion ''$owner'' False (Values [''0xab''] []))]]))))
         \<and> eval_AST asg (AST (Some (ASTExpr (ASTOr
               [ASTAnd [ASTTerm_Inclusion (Inclusion ''$owner'' False (Values [''0xab''] []))]]))))
             = (\<not> eval_TopLevel asg (filter_of (EqualExpr_Inclusion owner_not_in_0xAB)))"
proof -
  from assms have "asg (Atom_In ''$owner'' (Values (map ToLower [''0xAB'']) []))
      = asg (Atom_In ''$owner'' (Values [''0xAB''] []))"
    unfolding respectsCase_def by (simp add: metaVar_defs del: list.map)
  then show ?thesis
    by (simp add: owner_not_in_0xAB_def filter_of_def TopLevel_Normalise_def
        EqualExpr_convertToTerms.simps Inclusion_Normalise_def metaVar_defs ToLower_0xAB
        crossProduct_def distribute_def eval_TopLevel_def eval_Inclusion_def eval_AST_def
        eval_ASTExpr_def eval_ASTOr_def eval_ASTAnd_def)
qed

lemma positive_inclusion_is_kept:
  "TopLevel_Normalise owner_in_0xAB
     = Inr (AST (Some (ASTExpr (ASTOr
         [ASTAnd [ASTTerm_Inclusion (Inclusion ''$owner'' False (Values [''0xab''] []))]]))))
   \<and> allLeaves_TopLevel stringValued owner_in_0xAB
   \<and> leavesAt_TopLevel keptInclusion owner_in_0xAB"
  by (simp add: owner_in_0xAB_def filter_of_def TopLevel_Normalise_def
      EqualExpr_convertToTerms.simps Inclusion_Normalise_def metaVar_defs ToLower_0xAB
      crossProduct_def distribute_def allLeaves_TopLevel_def leavesAt_TopLevel_def)

text \<open>
  The list of a membership test is lower-cased like the string of an equality, so an
  assignment that tells \<^verbatim>\<open>$owner IN ("0xAB")\<close> from \<^verbatim>\<open>$owner IN ("0xab")\<close> separates the
  parsed filter from its normal form as well.
\<close>

lemma inclusion_is_case_folded:
  "eval_TopLevel ((=) (Atom_In ''$owner'' (Values [''0xAB''] []))) owner_in_0xAB
   \<and> \<not> eval_AST ((=) (Atom_In ''$owner'' (Values [''0xAB''] [])))
         (AST (Some (ASTExpr (ASTOr
           [ASTAnd [ASTTerm_Inclusion (Inclusion ''$owner'' False (Values [''0xab''] []))]]))))"
  by (simp add: owner_in_0xAB_def filter_of_def eval_TopLevel_def eval_Inclusion_def
      eval_AST_def eval_ASTExpr_def eval_ASTOr_def eval_ASTAnd_def)



text \<open>
  The shape of the normal form, for every parsed filter whose leaves on \<^verbatim>\<open>$key\<close>,
  \<^verbatim>\<open>$owner\<close> or \<^verbatim>\<open>$creator\<close> carry strings: \<^verbatim>\<open>Normalise\<close> returns an AST; the AST is empty
  exactly when the filter is \<^verbatim>\<open>$all\<close> or \<^verbatim>\<open>*\<close>; otherwise it is a non-empty list of
  non-empty conjunctions of leaves. (That a leaf is never a parenthesis and that the two
  levels do not nest is the type \<open>ASTOr\<close> itself.)
\<close>

lemma Normalise_dnf_shape:
  assumes "allLeaves_TopLevel stringValued t"
  shows "\<exists>ast. TopLevel_Normalise t = Inr ast
           \<and> (case AST_Expr ast of
                 None \<Rightarrow> TopLevel_Expression t = None
               | Some e \<Rightarrow> TopLevel_Expression t \<noteq> None
                            \<and> nonEmptyAnds (ASTOr_Terms (ASTExpr_Or e)))"
proof (cases "TopLevel_Expression t")
  case None
  then show ?thesis by (simp add: TopLevel_Normalise_def)
next
  case (Some e)
  with assms obtain expr where n: "Expression_Normalise e = Inr expr"
    using Normalise_total(1) [of e] by (auto simp: allLeaves_TopLevel_def)
  then have "nonEmptyAnds (ASTOr_Terms (ASTExpr_Or expr))"
    using Normalise_shape(1) [of e] by blast
  with n Some show ?thesis by (simp add: TopLevel_Normalise_def)
qed

text \<open>
  C2 promises an AST of that shape for every filter the parser accepts. The filter
  \<^verbatim>\<open>$owner = 5\<close> is accepted, has a single leaf and no parenthesis, and \<^verbatim>\<open>Normalise\<close>
  ends in a nil-pointer panic on it: no AST is produced.
\<close>

theorem C2_no_ast_for_numeric_owner:
  "allLeaves_TopLevel (\<lambda>l. \<forall>p. l \<noteq> EqualExpr_Paren p) owner_equals_5
   \<and> TopLevel_Normalise owner_equals_5 = Inl NilPointerDereference"
  by (simp add: Normalise_owner_equals_5)
    (simp add: owner_equals_5_def filter_of_def allLeaves_TopLevel_def)

text \<open>
  C3. For every expression and every assignment, \<^verbatim>\<open>invert\<close> returns an expression that
  evaluates to the negation of the original. The negation of a disjunction is the
  conjunction of the negated operands and conversely; the negate flag of an \<^verbatim>\<open>Equality\<close>,
  \<^verbatim>\<open>Glob\<close> or \<^verbatim>\<open>Inclusion\<close> leaf is flipped and nothing else changes; \<^verbatim>\<open><\<close> is exchanged
  with \<^verbatim>\<open>>=\<close> and \<^verbatim>\<open><=\<close> with \<^verbatim>\<open>>\<close>.
\<close>

theorem C3_invert_is_negation:
  "(\<exists>e'. Expression_invert e = Inr e' \<and> eval_Expression asg e' = (\<not> eval_Expression asg e))
   \<and> eval_AndExpression asg (OrExpression_invert d) = (\<not> eval_OrExpression asg d)
   \<and> eval_OrExpression asg (AndExpression_invert c) = (\<not> eval_AndExpression asg c)
   \<and> EqualExpr_invert (EqualExpr_Assign (Equality v n x)) = EqualExpr_Assign (Equality v (\<not> n) x)
   \<and> EqualExpr_invert (EqualExpr_Glob (Glob v n s)) = EqualExpr_Glob (Glob v (\<not> n) s)
   \<and> EqualExpr_invert (EqualExpr_Inclusion (Inclusion v n xs))
       = EqualExpr_Inclusion (Inclusion v (\<not> n) xs)
   \<and> EqualExpr_invert (EqualExpr_LessThan (LessThan v x))
       = EqualExpr_GreaterOrEqualThan (GreaterOrEqualThan v x)
   \<and> EqualExpr_invert (EqualExpr_GreaterOrEqualThan (GreaterOrEqualThan v x))
       = EqualExpr_LessThan (LessThan v x)
   \<and> EqualExpr_invert (EqualExpr_LessOrEqualThan (LessOrEqualThan v x))
       = EqualExpr_GreaterThan (GreaterThan v x)
   \<and> EqualExpr_invert (EqualExpr_GreaterThan (GreaterThan v x))
       = EqualExpr_LessOrEqualThan (LessOrEqualThan v x)"
proof -
  obtain e' where e': "Expression_invert e = Inr e'"
    using Expression_invert_total by blast
  then have "eval_Expression asg e' = (\<not> eval_Expression asg e)"
    by (rule eval_Expression_invert)
  with e' show ?thesis
    by (simp add: eval_OrExpression_invert eval_AndExpression_invert Equality_invert_def
        Glob_invert_def Inclusion_invert_def LessThan_invert_def GreaterOrEqualThan_invert_def
        LessOrEqualThan_invert_def GreaterThan_invert_def)
qed

text \<open>
  C4, as stated, fails: inverting \<^verbatim>\<open>a = 1 && b = 2\<close> twice gives
  \<^verbatim>\<open>(a = 1) && (b = 2)\<close>. Each operand is now a parenthesis, so the result differs
  from the original, and no reordering of the operands of the conjunction makes them
  equal.
\<close>

theorem C4_counterexample:
  "Expression_invert a_and_b
     = Inr (Expression (OrExpression
         (AndExpression (EqualExpr_Assign (Equality ''a'' True (Value_Number 1))) [])
         [OrRHS (AndExpression (EqualExpr_Assign (Equality ''b'' True (Value_Number 2))) [])]))
   \<and> Expression_invert (Expression (OrExpression
         (AndExpression (EqualExpr_Assign (Equality ''a'' True (Value_Number 1))) [])
         [OrRHS (AndExpression (EqualExpr_Assign (Equality ''b'' True (Value_Number 2))) [])]))
     = Inr (Expression (OrExpression
         (AndExpression
            (reparenthesise (EqualExpr_Assign (Equality ''a'' False (Value_Number 1))))
            [AndRHS (reparenthesise (EqualExpr_Assign (Equality ''b'' False (Value_Number 2))))])
         []))
   \<and> Expression (OrExpression
         (AndExpression
            (reparenthesise (EqualExpr_Assign (Equality ''a'' False (Value_Number 1))))
            [AndRHS (reparenthesise (EqualExpr_Assign (Equality ''b'' False (Value_Number 2))))])
         []) \<noteq> a_and_b
   \<and> set (conjuncts (Expression (OrExpression
         (AndExpression
            (reparenthesise (EqualExpr_Assign (Equality ''a'' False (Value_Number 1))))
            [AndRHS (reparenthesise (EqualExpr_Assign (Equality ''b'' False (Value_Number 2))))])
         []))) \<inter> set (conjuncts a_and_b) = {}"
  by (simp add: a_and_b_def Expression_invert_def OrExpression_invert_def
      AndExpression_invert_def AndRHS_invert_def OrRHS_invert_def Equality_invert_def
      reparenthesise_def conjuncts_def Let_def)

text \<open>
  C4 (amended). Applying \<^verbatim>\<open>invert\<close> twice to an expression gives an expression with the
  same normal form: \<^verbatim>\<open>Normalise\<close> returns the same result on both. On a single operand
  (a leaf or a parenthesis) \<^verbatim>\<open>invert\<close> twice is the identity.
\<close>

theorem C4_double_invert_same_normal_form:
  "(\<exists>e1 e2. Expression_invert e = Inr e1 \<and> Expression_invert e1 = Inr e2
        \<and> Expression_Normalise e2 = Expression_Normalise e)
   \<and> EqualExpr_invert (EqualExpr_invert q) = q"
proof -
  obtain e1 where e1: "Expression_invert e = Inr e1"
    using Expression_invert_total by blast
  obtain e2 where e2: "Expression_invert e1 = Inr e2"
    using Expression_invert_total by blast
  from e1 e2 have "Expression_Normalise e2 = Expression_Normalise e"
    by (rule Normalise_invert_invert)
  with e1 e2 show ?thesis
    by (simp add: EqualExpr_invert_invert)
qed

text \<open>
  C5 says that normalisation of a leaf on \<^verbatim>\<open>$key\<close>, \<^verbatim>\<open>$owner\<close> or \<^verbatim>\<open>$creator\<close> changes
  the case of its strings only, and keeps the negate flag of an \<^verbatim>\<open>IN\<close> leaf. The code
  drops the flag: the negated leaf \<^verbatim>\<open>$owner NOT IN ("0xAB")\<close> normalises to the positive
  leaf \<^verbatim>\<open>$owner IN ("0xab")\<close>.
\<close>

theorem C5_inclusion_negate_flag_lost:
  "Inclusion_IsNot owner_not_in_0xAB
   \<and> Inclusion_Normalise owner_not_in_0xAB = Inclusion ''$owner'' False (Values [''0xab''] [])
   \<and> EqualExpr_Normalise (EqualExpr_Inclusion owner_not_in_0xAB)
       = Inr (ASTTerm_Inclusion (Inclusion ''$owner'' False (Values [''0xab''] [])))"
  by (simp add: owner_not_in_0xAB_def Inclusion_Normalise_def isCaseInsensitiveVar_def
      OwnerAttributeKey_def ToLower_def toLowerChar_def)

text \<open>
  C10. The filter \<^verbatim>\<open>$owner = 5\<close> is accepted by the grammar (\<^verbatim>\<open>Equality\<close> takes the
  \<^verbatim>\<open>Owner\<close> token as variable and \<^verbatim>\<open>Value\<close> takes a \<^verbatim>\<open>Number\<close>), and on its parse tree
  \<^verbatim>\<open>Parse\<close> neither returns an error nor an AST: it panics on the nil string pointer.
\<close>

theorem C10_parse_panics_on_numeric_owner:
  assumes "ParseString ''$owner = 5'' = Inr owner_equals_5"
  shows "Parse ParseString ''$owner = 5'' = Inl NilPointerDereference"
  using assms by (simp add: Parse_def Normalise_owner_equals_5)

theorem C10_parse_panics_on_numeric_owner_witness:
  "(\<lambda>s. Inr owner_equals_5) ''$owner = 5'' = Inr owner_equals_5
   \<and> Parse (\<lambda>s. Inr owner_equals_5) ''$owner = 5'' = Inl NilPointerDereference"
  using C10_parse_panics_on_numeric_owner [of "\<lambda>s. Inr owner_equals_5"] by simp
section \<open>The library functions: round trips\<close>
































section \<open>The cursor codec: supporting lemmas\<close>

lemma BinarySearchFunc_loop_finds:
  "\<forall>h<n. below (x ! h) \<longleftrightarrow> h < k \<Longrightarrow> i \<le> k \<Longrightarrow> k \<le> j \<Longrightarrow> j \<le> n
     \<Longrightarrow> BinarySearchFunc_loop x below i j = k"
proof (induction x below i j rule: BinarySearchFunc_loop.induct)
  case (1 x below i j)
  note assms = 1(3)
  show ?case
  proof (cases "i < j")
    case False
    with 1(4,5) show ?thesis
      by (subst BinarySearchFunc_loop.simps) simp
  next
    case True
    let ?h = "(i + j) div 2"
    have h: "i \<le> ?h" "?h < j" using True by simp_all
    with 1(6) have hn: "?h < n" by simp
    show ?thesis
    proof (cases "below (x ! ?h)")
      case b: True
      with assms hn have "?h < k" by blast
      then have "BinarySearchFunc_loop x below (?h + 1) j = k"
        using 1(1) [OF True refl b assms] 1(5,6) by simp
      with True b show ?thesis
        by (subst BinarySearchFunc_loop.simps) (simp add: Let_def)
    next
      case b: False
      with assms hn have "k \<le> ?h" by (meson not_less)
      then have "BinarySearchFunc_loop x below i ?h = k"
        using 1(2) [OF True refl b assms] 1(4,6) h by simp
      with True b show ?thesis
        by (subst BinarySearchFunc_loop.simps) (simp add: Let_def)
    qed
  qed
qed

lemma GetColumnIndex_sorted:
  assumes "sorted_wrt (<) (map Column_Name (QueryOptions_Columns opts))"
    and "k < length (QueryOptions_Columns opts)"
  shows "GetColumnIndex opts (Column_Name (QueryOptions_Columns opts ! k)) = Inr k"
proof -
  let ?cols = "QueryOptions_Columns opts"
  let ?n = "length ?cols"
  have mono: "Column_Name (?cols ! a) < Column_Name (?cols ! b)" if "a < b" "b < ?n" for a b
    using assms(1) that sorted_wrt_nth_less [of "(<)" "map Column_Name ?cols" a b] by simp
  have "\<forall>h<?n. (Column_Name (?cols ! h) < Column_Name (?cols ! k)) \<longleftrightarrow> h < k"
  proof (intro allI impI)
    fix h assume h: "h < ?n"
    show "(Column_Name (?cols ! h) < Column_Name (?cols ! k)) \<longleftrightarrow> h < k"
    proof
      assume lt: "Column_Name (?cols ! h) < Column_Name (?cols ! k)"
      show "h < k"
      proof (rule ccontr)
        assume "\<not> h < k"
        then have "k = h \<or> k < h" by auto
        then show False
          using lt mono [of k h] h by auto
      qed
    next
      assume "h < k"
      then show "Column_Name (?cols ! h) < Column_Name (?cols ! k)"
        using mono assms(2) by blast
    qed
  qed
  then have "BinarySearchFunc_loop ?cols (\<lambda>a. Column_Name a < Column_Name (?cols ! k)) 0 ?n = k"
    using assms(2) BinarySearchFunc_loop_finds [where n = ?n and k = k and i = 0 and j = ?n
        and x = ?cols and below = "\<lambda>a. Column_Name a < Column_Name (?cols ! k)"] by simp
  with assms(2) show ?thesis
    by (simp add: GetColumnIndex_def Let_def)
qed







lemma int_of_float64_numeral [simp]:
  "int_of_float64 0 = 0" "int_of_float64 1 = 1" "int_of_float64 (numeral w) = numeral w"
  "int_of_float64 (- numeral w) = - numeral w"
  by (simp_all add: int_of_float64_def)
















section \<open>Claims about the cursor codec\<close>




text \<open>
  C7 says that \<^verbatim>\<open>DecodeCursor\<close> answers every malformed cursor string with an error. On
  the hex of \<^verbatim>\<open>[]\<close> it indexes the empty array, on the hex of \<^verbatim>\<open>[1,0,0,"x"]\<close> (a
  descending flag that is not a number) it builds the error message from \<^verbatim>\<open>c[3]\<close> of a
  chunk of three, and on the hex of \<^verbatim>\<open>[1,-1,0,0]\<close> it indexes the columns at \<open>-1\<close>: each
  is a run-time panic, not an error value.
\<close>

theorem C7_decode_panics:
  "DecodeCursor opts0 ''5b5d'' = Inl IndexOutOfRange
   \<and> DecodeCursor opts0 ''5b312c302c302c2278225d'' = Inl IndexOutOfRange
   \<and> DecodeCursor opts0 ''5b312c2d312c302c305d'' = Inl IndexOutOfRange"
  by code_simp
section \<open>The pagination step and the emitter: supporting lemmas\<close>

text \<open>
  What the loops of \<^verbatim>\<open>addPaginationArguments\<close> compute, when every column of the cursor is
  found: the arguments are pushed in order, and row \<open>i\<close> of the condition is the text of
  row \<open>i\<close> of the keyset predicate.
\<close>

lemma pushArguments_result:
  "pushArguments b cursor placeholders =
     (b\<lparr>args := args b @ map CursorValue_Value cursor,
        argsCount := argsCount b + of_nat (length cursor)\<rparr>,
      placeholders @ placeholdersFrom b (length cursor))"
proof (induction cursor arbitrary: b placeholders)
  case Nil
  show ?case by (simp add: placeholdersFrom_def)
next
  case (Cons val rest)
  let ?b' = "b\<lparr>args := args b @ [CursorValue_Value val], argsCount := argsCount b + 1\<rparr>"
  have shift: "placeholdersFrom b (length (val # rest))
      = (''$'' @ decimal (unat (argsCount b + 1))) # placeholdersFrom ?b' (length rest)"
    by (simp add: placeholdersFrom_def upt_conv_Cons map_Suc_upt [symmetric]
        parameterNumber_def add.assoc del: upt_Suc)
  show ?case
    by (simp only: pushArguments.simps pushArgument_def Let_def prod.case Cons.IH shift)
      (simp add: add.assoc)
qed

lemma subconditionLoop_result:
  assumes "list_all (knownColumn opts) rest"
  shows "subconditionLoop opts placeholders i j rest subcondition =
     Inr (subcondition
          @ map (\<lambda>(k, from).
                   qualifiedName opts (CursorValue_ColumnName from) @ '' ''
                   @ (if k < i then ''='' else if CursorValue_Descending from then ''<'' else ''>'')
                   @ '' '' @ placeholders ! k)
              (zip [j..<Suc i] rest))"
  using assms
proof (induction rest arbitrary: j subcondition)
  case Nil
  show ?case by simp
next
  case (Cons cv rest)
  show ?case
  proof (cases "i < j")
    case True
    then show ?thesis by simp
  next
    case False
    then have upt: "[j..<Suc i] = j # [Suc j..<Suc i]"
      by (simp add: upt_conv_Cons del: upt_Suc)
    from Cons.prems obtain ix where ix: "GetColumnIndex opts (CursorValue_ColumnName cv) = Inr ix"
      by (auto simp add: knownColumn_def split: sum.splits)
    from Cons.prems have rest: "list_all (knownColumn opts) rest" by simp
    show ?thesis
      using False ix
      by (simp add: Cons.IH [OF rest] upt qualifiedName_def del: upt_Suc)
  qed
qed

lemma cursorColumns_nth:
  "k < length (QueryOptions_Cursor (options b)) \<Longrightarrow>
   cursorColumns b ! k =
     CursorColumn (qualifiedName (options b)
                     (CursorValue_ColumnName (QueryOptions_Cursor (options b) ! k)))
       (CursorValue_Descending (QueryOptions_Cursor (options b) ! k)) (parameterNumber b k)"
  by (simp add: cursorColumns_def Let_def)

lemma length_cursorColumns:
  "length (cursorColumns b) = length (QueryOptions_Cursor (options b))"
  by (simp add: cursorColumns_def)

lemma subcondition_keysetRow:
  assumes "i < length (QueryOptions_Cursor (options b))"
    and "list_all (knownColumn (options b)) (QueryOptions_Cursor (options b))"
  shows "subconditionLoop (options b)
           (placeholdersFrom b (length (QueryOptions_Cursor (options b)))) i 0
           (QueryOptions_Cursor (options b)) []
         = Inr (map spec_comparisonText (spec_keysetRow (cursorColumns b) i))"
proof -
  let ?cursor = "QueryOptions_Cursor (options b)"
  let ?f = "\<lambda>(k, from).
                   qualifiedName (options b) (CursorValue_ColumnName from) @ '' ''
                   @ (if k < i then ''='' else if CursorValue_Descending from then ''<'' else ''>'')
                   @ '' '' @ placeholdersFrom b (length ?cursor) ! k"
  have "map ?f (zip [0..<Suc i] ?cursor)
      = map spec_comparisonText (spec_keysetRow (cursorColumns b) i)"
  proof (rule nth_equalityI)
    show "length (map ?f (zip [0..<Suc i] ?cursor))
        = length (map spec_comparisonText (spec_keysetRow (cursorColumns b) i))"
      using assms(1) by (simp add: spec_keysetRow_def length_cursorColumns del: upt_Suc)
  next
    fix k
    assume "k < length (map ?f (zip [0..<Suc i] ?cursor))"
    with assms(1) have k: "k < Suc i" by (simp del: upt_Suc)
    then have "k < i \<or> k = i" by auto
    then show "map ?f (zip [0..<Suc i] ?cursor) ! k
        = map spec_comparisonText (spec_keysetRow (cursorColumns b) i) ! k"
      using assms(1) k
      by (auto simp add: spec_keysetRow_def length_cursorColumns nth_append cursorColumns_nth
          spec_comparisonText_def spec_equal_def spec_beyond_def placeholdersFrom_def
          simp del: upt_Suc)
  qed
  then show ?thesis
    by (simp only: subconditionLoop_result [OF assms(2)] append_Nil)
qed

lemma paginationLoop_result:
  assumes "list_all (knownColumn (options b)) (QueryOptions_Cursor (options b))"
    and "list_all (\<lambda>i. i < length (QueryOptions_Cursor (options b))) rows"
  shows "paginationLoop (options b)
           (placeholdersFrom b (length (QueryOptions_Cursor (options b)))) rows
           paginationConditions
         = Inr (paginationConditions
                @ map (\<lambda>i. spec_rowText (spec_keysetRow (cursorColumns b) i)) rows)"
  using assms(2)
proof (induction rows arbitrary: paginationConditions)
  case Nil
  show ?case by simp
next
  case (Cons i rows)
  then have i: "i < length (QueryOptions_Cursor (options b))"
    and rows: "list_all (\<lambda>i. i < length (QueryOptions_Cursor (options b))) rows"
    by simp_all
  show ?case
    by (simp add: subcondition_keysetRow [OF i assms(1)] Cons.IH [OF rows] spec_rowText_def
        del: upt_Suc)
qed

lemma addPaginationArguments_text:
  assumes "list_all (knownColumn (options b)) (QueryOptions_Cursor (options b))"
  shows "addPaginationArguments b =
     (if QueryOptions_Cursor (options b) = [] then (b, None)
      else (b\<lparr>queryBuilder := queryBuilder b
                  @ (if needsWhere b then '' WHERE '' else '' AND '')
                  @ ''('' @ spec_predicateText (spec_keysetPredicate (cursorColumns b)) @ '')'',
               args := args b @ map CursorValue_Value (QueryOptions_Cursor (options b)),
               argsCount := argsCount b + of_nat (length (QueryOptions_Cursor (options b))),
               needsWhere := False\<rparr>, None))"
proof (cases "QueryOptions_Cursor (options b) = []")
  case True
  then show ?thesis by (simp add: addPaginationArguments_def)
next
  case False
  have all: "list_all (\<lambda>i. i < length (QueryOptions_Cursor (options b)))
               [0..<length (QueryOptions_Cursor (options b))]"
    by (simp add: list_all_iff)
  have loop: "paginationLoop (options b)
           (placeholdersFrom b (length (QueryOptions_Cursor (options b))))
           [0..<length (QueryOptions_Cursor (options b))] []
         = Inr (map spec_rowText (spec_keysetPredicate (cursorColumns b)))"
    by (simp only: paginationLoop_result [OF assms all] append_Nil spec_keysetPredicate_def
        length_cursorColumns map_map o_def)
  show ?thesis
    using False
    by (simp add: addPaginationArguments_def pushArguments_result loop spec_predicateText_def
        WriteString_def del: upt_Suc)
qed


lemma unat_plus_of_nat:
  fixes w :: "32 word"
  assumes "unat w + n < 2 ^ 32"
  shows "unat (w + of_nat n) = unat w + n"
proof -
  have n: "unat (of_nat n :: 32 word) = n"
    using assms by (simp add: unat_of_nat)
  show ?thesis
    using assms n unat_add_lem [of w "of_nat n"] by simp
qed

lemma spec_keysetRow_Cons:
  "spec_keysetRow (c # cs) 0 = [spec_beyond c]"
  "spec_keysetRow (c # cs) (Suc i) = spec_equal c # spec_keysetRow cs i"
  by (simp_all add: spec_keysetRow_def)

lemma spec_keysetPredicate_Cons:
  "spec_keysetPredicate (c # cs)
     = [spec_beyond c] # map ((#) (spec_equal c)) (spec_keysetPredicate cs)"
proof -
  have "spec_keysetPredicate (c # cs)
      = spec_keysetRow (c # cs) 0 # map (\<lambda>i. spec_keysetRow (c # cs) (Suc i)) [0..<length cs]"
    by (simp add: spec_keysetPredicate_def upt_conv_Cons map_Suc_upt [symmetric] o_def
        del: upt_Suc)
  then show ?thesis
    by (simp add: spec_keysetRow_Cons spec_keysetPredicate_def o_def del: upt_Suc)
qed

lemma spec_holds_beyond:
  "spec_holdsComparison row param (spec_beyond c)
     = (if CursorColumn_Descending c
        then row (CursorColumn_Name c) < param (CursorColumn_Parameter c)
        else param (CursorColumn_Parameter c) < row (CursorColumn_Name c))"
  by (simp add: spec_beyond_def)

lemma spec_holds_equal:
  "spec_holdsComparison row param (spec_equal c)
     = (row (CursorColumn_Name c) = param (CursorColumn_Parameter c))"
  by (simp add: spec_equal_def)

lemma keyset_is_lexicographic:
  "spec_holdsPredicate row param (spec_keysetPredicate cs)
     = spec_succeeds (map (\<lambda>c. (CursorColumn_Descending c, row (CursorColumn_Name c),
                                  param (CursorColumn_Parameter c))) cs)"
proof (induction cs)
  case Nil
  show ?case by (simp add: spec_holdsPredicate_def spec_keysetPredicate_def)
next
  case (Cons c cs)
  have "spec_holdsPredicate row param (spec_keysetPredicate (c # cs))
      = (spec_holdsComparison row param (spec_beyond c)
         \<or> (spec_holdsComparison row param (spec_equal c)
            \<and> spec_holdsPredicate row param (spec_keysetPredicate cs)))"
    by (simp add: spec_keysetPredicate_Cons spec_holdsPredicate_def list_ex_iff)
  then show ?case
    by (simp add: Cons.IH spec_holds_beyond spec_holds_equal)
qed

lemma cursorColumns_values:
  assumes "unat (argsCount b) = length (args b)"
    and "length (args b) + length (QueryOptions_Cursor (options b)) < 2 ^ 32"
  shows "map (\<lambda>c. (CursorColumn_Descending c, row (CursorColumn_Name c),
                   val ((args b @ map CursorValue_Value (QueryOptions_Cursor (options b)))
                          ! (CursorColumn_Parameter c - 1))))
           (cursorColumns b)
       = map (\<lambda>cv. (CursorValue_Descending cv,
                     row (qualifiedName (options b) (CursorValue_ColumnName cv)),
                     val (CursorValue_Value cv)))
           (QueryOptions_Cursor (options b))"
proof (rule nth_equalityI)
  show "length (map (\<lambda>c. (CursorColumn_Descending c, row (CursorColumn_Name c),
                   val ((args b @ map CursorValue_Value (QueryOptions_Cursor (options b)))
                          ! (CursorColumn_Parameter c - 1))))
           (cursorColumns b))
      = length (map (\<lambda>cv. (CursorValue_Descending cv,
                     row (qualifiedName (options b) (CursorValue_ColumnName cv)),
                     val (CursorValue_Value cv)))
           (QueryOptions_Cursor (options b)))"
    by (simp add: length_cursorColumns)
next
  fix j
  assume "j < length (map (\<lambda>c. (CursorColumn_Descending c, row (CursorColumn_Name c),
                   val ((args b @ map CursorValue_Value (QueryOptions_Cursor (options b)))
                          ! (CursorColumn_Parameter c - 1))))
           (cursorColumns b))"
  then have j: "j < length (QueryOptions_Cursor (options b))"
    by (simp add: length_cursorColumns)
  with assms have "unat (argsCount b) + Suc j < 2 ^ 32" by simp
  then have "parameterNumber b j = length (args b) + Suc j"
    unfolding parameterNumber_def using unat_plus_of_nat [of "argsCount b" "Suc j"] assms(1)
    by simp
  then show "map (\<lambda>c. (CursorColumn_Descending c, row (CursorColumn_Name c),
                   val ((args b @ map CursorValue_Value (QueryOptions_Cursor (options b)))
                          ! (CursorColumn_Parameter c - 1))))
           (cursorColumns b) ! j
      = map (\<lambda>cv. (CursorValue_Descending cv,
                     row (qualifiedName (options b) (CursorValue_ColumnName cv)),
                     val (CursorValue_Value cv)))
           (QueryOptions_Cursor (options b)) ! j"
    using j by (simp add: length_cursorColumns cursorColumns_nth nth_append)
qed

text \<open>
  The recursive order \<open>spec_succeeds\<close> is the lexicographic one: the row succeeds the
  cursor exactly when there is a column where it lies beyond the cursor in that column's
  direction and all earlier columns are equal.
\<close>

lemma spec_succeeds_first_difference:
  "spec_succeeds ts
     = (\<exists>i<length ts.
          (\<forall>j<i. fst (snd (ts ! j)) = snd (snd (ts ! j)))
          \<and> (if fst (ts ! i) then fst (snd (ts ! i)) < snd (snd (ts ! i))
             else snd (snd (ts ! i)) < fst (snd (ts ! i))))"
proof (induction ts)
  case Nil
  show ?case by simp
next
  case (Cons t ts)
  obtain d r c where t: "t = (d, r, c)" by (cases t) auto
  show ?case
    unfolding t spec_succeeds.simps Cons.IH
    by (simp add: Ex_less_Suc2 All_less_Suc2 cong: if_cong) blast
qed

text \<open>
  The column lookups of the pagination step succeed on a decoded cursor: over columns
  sorted by name, every column value that \<^verbatim>\<open>DecodeCursor\<close> returns names a column that
  \<^verbatim>\<open>GetColumnIndex\<close> finds.
\<close>

lemma decodeChunk_names_column:
  assumes "decodeChunk opts c0 c1 c2 = Inr (Inr v)"
  shows "\<exists>k<length (QueryOptions_Columns opts).
           CursorValue_ColumnName v = Column_Name (QueryOptions_Columns opts ! k)"
proof -
  from assms obtain f t where c0: "c0 = AnyFloat64 f" and c2: "c2 = AnyFloat64 t"
    by (auto simp add: decodeChunk_def split: any.splits)
  let ?ix = "int_of_float64 f"
  from assms have range: "0 \<le> ?ix" "?ix < int (length (QueryOptions_Columns opts))"
    unfolding c0 c2 by (auto simp add: decodeChunk_def Let_def split: if_splits)
  from assms range
  have "CursorValue_ColumnName v = Column_Name (QueryOptions_Columns opts ! nat ?ix)"
    unfolding c0 c2
    by (auto simp add: decodeChunk_def Let_def split: if_splits any.splits option.splits)
  with range show ?thesis
    by (intro exI [of _ "nat ?ix"]) auto
qed

lemma decodeChunks_known:
  "sorted_wrt (<) (map Column_Name (QueryOptions_Columns opts))
   \<Longrightarrow> decodeChunks opts encoded columnValues = Inr (Inr vs)
   \<Longrightarrow> list_all (knownColumn opts) columnValues
   \<Longrightarrow> list_all (knownColumn opts) vs"
proof (induction opts encoded columnValues rule: decodeChunks.induct)
  case (1 opts columnValues)
  then show ?case by simp
next
  case (2 opts c0 c1 c2 rest columnValues)
  from "2.prems"(2) obtain v where v: "decodeChunk opts c0 c1 c2 = Inr (Inr v)"
    and rest: "decodeChunks opts rest (columnValues @ [v]) = Inr (Inr vs)"
    by (auto split: sum.splits)
  from decodeChunk_names_column [OF v] obtain k where
    k: "k < length (QueryOptions_Columns opts)"
       "CursorValue_ColumnName v = Column_Name (QueryOptions_Columns opts ! k)"
    by blast
  have "knownColumn opts v"
    using GetColumnIndex_sorted [OF "2.prems"(1) k(1)] k(2) by (simp add: knownColumn_def)
  with "2.prems"(3) have "list_all (knownColumn opts) (columnValues @ [v])" by simp
  from "2.IH" [OF v refl "2.prems"(1) rest this] show ?case .
qed simp_all

lemma DecodeCursor_with_known:
  assumes "sorted_wrt (<) (map Column_Name (QueryOptions_Columns opts))"
    and "DecodeCursor_with unmarshal opts cursorStr = Inr (Inr (Some cursor))"
  shows "list_all (knownColumn opts) (Cursor_ColumnValues cursor)"
proof -
  from assms(2) obtain rest where
    "decodeChunks opts rest [] = Inr (Inr (Cursor_ColumnValues cursor))"
    by (auto simp add: DecodeCursor_with_def split: if_splits option.splits list.splits
        any.splits sum.splits)
  from decodeChunks_known [OF assms(1) this] show ?thesis by simp
qed

lemma DecodeCursor_known:
  assumes "sorted_wrt (<) (map Column_Name (QueryOptions_Columns opts))"
    and "DecodeCursor opts cursorStr = Inr (Inr (Some cursor))"
  shows "list_all (knownColumn opts) (Cursor_ColumnValues cursor)"
  using DecodeCursor_with_known [OF assms(1)] assms(2) by (simp add: DecodeCursor_def)

text \<open>Evaluations of the examples.\<close>

lemma builderCursor_known:
  "list_all (knownColumn (options builderCursor)) (QueryOptions_Cursor (options builderCursor))"
  by code_simp

lemma builderCursor_text:
  "spec_predicateText (spec_keysetPredicate (cursorColumns builderCursor))
     = ''(e.from_block > $1) OR (e.from_block = $1 AND e.entity_key < $2)''"
  by code_simp

lemma builderCursor_succeeds:
  "spec_succeeds
     (map (\<lambda>cv. (CursorValue_Descending cv,
                  rowAfter (qualifiedName (options builderCursor) (CursorValue_ColumnName cv)),
                  valueExample (CursorValue_Value cv)))
        (QueryOptions_Cursor (options builderCursor)))"
  by code_simp

lemma builderCursor_fields:
  "QueryOptions_Cursor (options builderCursor)
     = [CursorValue ''from_block'' (AnyFloat64 42) False,
        CursorValue ''entity_key'' (AnyBytes [CHR 0xDE, CHR 0xAD]) True]"
  "queryBuilder builderCursor = ''SELECT 1 FROM payloads AS e''"
  "args builderCursor = []"
  "argsCount builderCursor = 0"
  "needsWhere builderCursor"
  by (simp_all add: builderCursor_def optsCursor_def)

lemma decimal_1: "decimal (Suc 0) = ''1''"
  by code_simp

lemma decimal_200: "decimal 200 = ''200''"
  by code_simp

lemma columnString_optsAll:
  "columnString optsAll = ''e.entity_key AS entity_key, e.from_block AS from_block''"
  by code_simp

section \<open>Claims about the pagination step and the emitter\<close>

text \<open>
  C8. Let every column of the builder's cursor be found by \<^verbatim>\<open>GetColumnIndex\<close> (as it is
  for a decoded cursor over columns sorted by name, lemma \<open>DecodeCursor_known\<close>), let \<^verbatim>\<open>argsCount\<close> be the number of
  arguments pushed so far, and let the cursor's values fit below \<open>2 ^ 32\<close> arguments. When
  the cursor is empty, \<^verbatim>\<open>addPaginationArguments\<close> leaves the builder as it is. Otherwise it
  pushes each cursor value once, in order, and appends \<^verbatim>\<open>WHERE\<close> or \<^verbatim>\<open>AND\<close> and then, in
  parentheses, the disjunction whose row \<open>i\<close> is
  \<^verbatim>\<open>(c1 = $1 AND ... AND ci OP $i)\<close>, with \<^verbatim>\<open><\<close> for a descending column and \<^verbatim>\<open>>\<close>
  otherwise, every row using the same parameter for the same column. Read with parameter
  \<open>k\<close> as the \<open>k\<close>-th argument and with column and argument values in one total order,
  that predicate holds for a row if and only if the row's tuple strictly succeeds the
  cursor's tuple in the lexicographic order of the columns' directions.
\<close>

theorem C8_pagination_keyset:
  assumes "list_all (knownColumn (options b)) (QueryOptions_Cursor (options b))"
    and "unat (argsCount b) = length (args b)"
    and "length (args b) + length (QueryOptions_Cursor (options b)) < 2 ^ 32"
  shows "addPaginationArguments b =
           (if QueryOptions_Cursor (options b) = [] then (b, None)
            else (b\<lparr>queryBuilder := queryBuilder b
                        @ (if needsWhere b then '' WHERE '' else '' AND '')
                        @ ''('' @ spec_predicateText (spec_keysetPredicate (cursorColumns b))
                        @ '')'',
                     args := args b @ map CursorValue_Value (QueryOptions_Cursor (options b)),
                     argsCount := argsCount b
                        + of_nat (length (QueryOptions_Cursor (options b))),
                     needsWhere := False\<rparr>, None))
         \<and> (spec_holdsPredicate row
               (\<lambda>k. val (args (fst (addPaginationArguments b)) ! (k - 1)))
               (spec_keysetPredicate (cursorColumns b))
             = spec_succeeds
                 (map (\<lambda>cv. (CursorValue_Descending cv,
                              row (qualifiedName (options b) (CursorValue_ColumnName cv)),
                              val (CursorValue_Value cv)))
                    (QueryOptions_Cursor (options b))))"
proof (cases "QueryOptions_Cursor (options b) = []")
  case True
  then show ?thesis
    by (simp add: addPaginationArguments_def cursorColumns_def spec_keysetPredicate_def
        spec_holdsPredicate_def)
next
  case False
  have emitted: "addPaginationArguments b =
      (b\<lparr>queryBuilder := queryBuilder b
                        @ (if needsWhere b then '' WHERE '' else '' AND '')
                        @ ''('' @ spec_predicateText (spec_keysetPredicate (cursorColumns b))
                        @ '')'',
         args := args b @ map CursorValue_Value (QueryOptions_Cursor (options b)),
         argsCount := argsCount b + of_nat (length (QueryOptions_Cursor (options b))),
         needsWhere := False\<rparr>, None)"
    using addPaginationArguments_text [OF assms(1)] False by simp
  have "spec_holdsPredicate row
          (\<lambda>k. val ((args b @ map CursorValue_Value (QueryOptions_Cursor (options b))) ! (k - 1)))
          (spec_keysetPredicate (cursorColumns b))
      = spec_succeeds
          (map (\<lambda>cv. (CursorValue_Descending cv,
                       row (qualifiedName (options b) (CursorValue_ColumnName cv)),
                       val (CursorValue_Value cv)))
             (QueryOptions_Cursor (options b)))"
    by (simp only: keyset_is_lexicographic cursorColumns_values [OF assms(2,3)])
  then show ?thesis
    using False by (simp add: emitted)
qed

theorem C8_pagination_keyset_witness:
  "list_all (knownColumn (options builderCursor)) (QueryOptions_Cursor (options builderCursor))
   \<and> unat (argsCount builderCursor) = length (args builderCursor)
   \<and> length (args builderCursor) + length (QueryOptions_Cursor (options builderCursor)) < 2 ^ 32
   \<and> addPaginationArguments builderCursor
       = (builderCursor\<lparr>queryBuilder := ''SELECT 1 FROM payloads AS e WHERE ((e.from_block > $1) OR (e.from_block = $1 AND e.entity_key < $2))'',
                         args := [AnyFloat64 42, AnyBytes [CHR 0xDE, CHR 0xAD]],
                         argsCount := 2,
                         needsWhere := False\<rparr>, None)
   \<and> spec_holdsPredicate rowAfter
         (\<lambda>k. valueExample (args (fst (addPaginationArguments builderCursor)) ! (k - 1)))
         (spec_keysetPredicate (cursorColumns builderCursor))"
proof -
  have known: "list_all (knownColumn (options builderCursor))
                 (QueryOptions_Cursor (options builderCursor))"
    by (rule builderCursor_known)
  have count: "unat (argsCount builderCursor) = length (args builderCursor)"
    by (simp add: builderCursor_fields)
  have room: "length (args builderCursor) + length (QueryOptions_Cursor (options builderCursor))
                < 2 ^ 32"
    by (simp add: builderCursor_fields)
  note both = C8_pagination_keyset [OF known count room, of rowAfter valueExample]
  have emitted: "addPaginationArguments builderCursor
       = (builderCursor\<lparr>queryBuilder := ''SELECT 1 FROM payloads AS e WHERE ((e.from_block > $1) OR (e.from_block = $1 AND e.entity_key < $2))'',
                         args := [AnyFloat64 42, AnyBytes [CHR 0xDE, CHR 0xAD]],
                         argsCount := 2,
                         needsWhere := False\<rparr>, None)"
    using both [THEN conjunct1] by (simp add: builderCursor_text builderCursor_fields)
  have holds: "spec_holdsPredicate rowAfter
         (\<lambda>k. valueExample (args (fst (addPaginationArguments builderCursor)) ! (k - 1)))
         (spec_keysetPredicate (cursorColumns builderCursor))"
    unfolding both [THEN conjunct2] by (rule builderCursor_succeeds)
  show ?thesis
    by (intro conjI known count room emitted holds)
qed

text \<open>
  C9, as stated, fails: the emitter writes every placeholder with its number. For the
  filter \<^verbatim>\<open>$all\<close>, the two key columns, block 7, no order-by annotations and no cursor the
  SQL text has \<^verbatim>\<open>$1\<close> where the claim has \<^verbatim>\<open>?\<close>.
\<close>

theorem C9_counterexample:
  "EvaluateAST (AST None) optsAll
     = Inr (Inr (SelectQuery
         ''SELECT e.entity_key AS entity_key, e.from_block AS from_block FROM payloads AS e WHERE $1 BETWEEN e.from_block AND e.to_block - 1 ORDER BY from_block, entity_key LIMIT 200''
         [AnyInt 7]))
   \<and> EvaluateAST (AST None) optsAll
     \<noteq> Inr (Inr (SelectQuery
         ''SELECT e.entity_key AS entity_key, e.from_block AS from_block FROM payloads AS e WHERE ? BETWEEN e.from_block AND e.to_block - 1 ORDER BY from_block, entity_key LIMIT 200''
         [AnyInt 7]))"
  by code_simp

text \<open>
  C9 (amended). For the filter \<^verbatim>\<open>$all\<close>, whose normal form is the empty AST, with no
  order-by annotations, no cursor and the order that \<^verbatim>\<open>NewQueryOptions\<close> builds without
  annotations, \<^verbatim>\<open>EvaluateAST\<close> returns the SQL text
  \<^verbatim>\<open>SELECT <cols> FROM payloads AS e WHERE $1 BETWEEN e.from_block AND e.to_block - 1
  ORDER BY from_block, entity_key LIMIT 200\<close>, with no \<^verbatim>\<open>WITH\<close> clause, and the argument
  list that holds the block number only.
\<close>

theorem C9_all_filter_sql:
  assumes "QueryOptions_OrderByAnnotations opts = []"
    and "QueryOptions_Cursor opts = []"
    and "QueryOptions_OrderBy opts = defaultOrderBy"
  shows "TopLevel_Normalise (TopLevel None) = Inr (AST None)
         \<and> EvaluateAST (AST None) opts
           = Inr (Inr (SelectQuery
               (''SELECT '' @ columnString opts
                @ '' FROM payloads AS e WHERE $1 BETWEEN e.from_block AND e.to_block - 1 ORDER BY from_block, entity_key LIMIT 200'')
               [AnyInt (uint (QueryOptions_AtBlock opts))]))"
  using assms
  by (simp add: TopLevel_Normalise_def EvaluateAST_def addPaginationArguments_def
      pushArgument_def WriteString_def defaultOrderBy_def QueryResultCountLimit_def
      decimal_1 decimal_200 Let_def)

theorem C9_all_filter_sql_witness:
  "QueryOptions_OrderByAnnotations optsAll = []
   \<and> QueryOptions_Cursor optsAll = []
   \<and> QueryOptions_OrderBy optsAll = defaultOrderBy
   \<and> TopLevel_Normalise (TopLevel None) = Inr (AST None)
   \<and> EvaluateAST (AST None) optsAll
       = Inr (Inr (SelectQuery
         ''SELECT e.entity_key AS entity_key, e.from_block AS from_block FROM payloads AS e WHERE $1 BETWEEN e.from_block AND e.to_block - 1 ORDER BY from_block, entity_key LIMIT 200''
         [AnyInt 7]))"
  using C9_all_filter_sql [of optsAll]
  by (simp add: columnString_optsAll) (simp add: optsAll_def)


end
